theory Spec2Isabelle
  imports Complex_Main
begin

section \<open>Conventions\<close>

text \<open>
  The gaze analytics core of the repository (gaze_detection.cpp, advanced_features.cpp,
  heatmap.cpp) is embedded function by function.

  \<^item> C \<open>float\<close> and \<open>double\<close> values are modelled as \<^typ>\<open>real\<close>: arithmetic is
    exact, rounding, infinities and NaN are not modelled.
  \<^item> C \<open>int\<close> is \<^typ>\<open>int\<close>, \<open>size_t\<close> indices are \<^typ>\<open>nat\<close>.
  \<^item> The module-level \<open>static\<close> variables (the smoothing anchor of gaze_detection.cpp,
    \<open>realtime_state\<close> of advanced_features.cpp) are fields of explicit state records
    that every function takes and returns.
  \<^item> The configuration structs are parameters; their initialisers in the source are the
    \<open>default_\<dots>\<close> constants.
  \<^item> Record fields carry a short prefix of their struct (\<open>gp_x\<close> for \<open>GazePoint.x\<close>)
    because several structs share the field names \<open>x\<close>, \<open>y\<close>, \<open>confidence\<close>.
\<close>

section \<open>Data structures (cor.h)\<close>

record EyeRegion =
  er_x :: int
  er_y :: int
  er_width :: int
  er_height :: int
  er_confidence :: real

record PupilData =
  pd_x :: real
  pd_y :: real
  pd_radius :: real
  pd_confidence :: real

record EyeDetectionResult =
  left_eye :: EyeRegion
  right_eye :: EyeRegion
  left_pupil :: PupilData
  right_pupil :: PupilData
  valid :: bool
  timestamp :: real

record GazePoint =
  gp_x :: real
  gp_y :: real
  gp_confidence :: real
  gp_timestamp :: real

section \<open>Gaze estimation (gaze_detection.cpp)\<close>

record gaze_config =
  sensitivity_x :: real
  sensitivity_y :: real
  offset_x :: real
  offset_y :: real
  pupil_to_gaze_ratio_x :: real
  pupil_to_gaze_ratio_y :: real
  gaze_center_x :: real
  gaze_center_y :: real
  smoothing_factor :: real
  min_confidence_threshold :: real
  max_gaze_angle :: real

definition default_gaze_config :: gaze_config where
  "default_gaze_config =
     \<lparr>sensitivity_x = 1, sensitivity_y = 1, offset_x = 0, offset_y = 0,
      pupil_to_gaze_ratio_x = 8 / 10, pupil_to_gaze_ratio_y = 8 / 10,
      gaze_center_x = 1 / 2, gaze_center_y = 1 / 2,
      smoothing_factor = 3 / 10, min_confidence_threshold = 7 / 10,
      max_gaze_angle = 45\<rparr>"

text \<open>The smoothing anchor: the two statics \<open>prev_gaze\<close> and \<open>prev_gaze_valid\<close>.\<close>

record gaze_state =
  prev_gaze :: GazePoint
  prev_gaze_valid :: bool

definition zero_gaze_point :: GazePoint where
  "zero_gaze_point = \<lparr>gp_x = 0, gp_y = 0, gp_confidence = 0, gp_timestamp = 0\<rparr>"

definition initial_gaze_state :: gaze_state where
  "initial_gaze_state = \<lparr>prev_gaze = zero_gaze_point, prev_gaze_valid = False\<rparr>"

text \<open>
  The C library's \<open>atan2 y x\<close> (the angle of the point \<open>(x, y)\<close>, in \<open>(-\<pi>, \<pi>]\<close>),
  written out by quadrant; signed zeros are not distinguished.
\<close>

definition atan2 :: "real \<Rightarrow> real \<Rightarrow> real" where
  "atan2 y x =
     (if 0 < x then arctan (y / x)
      else if x < 0 then (if 0 \<le> y then arctan (y / x) + pi else arctan (y / x) - pi)
      else if 0 < y then pi / 2
      else if y < 0 then - (pi / 2)
      else 0)"

text \<open>
  \<open>calculate_gaze_direction\<close> in the three steps of its body. First the gaze
  displacement: the average pupil position minus the average eye-box centre, scaled by
  ratio and sensitivity.
\<close>

definition gaze_displacement :: "gaze_config \<Rightarrow> EyeDetectionResult \<Rightarrow> real \<times> real" where
  "gaze_displacement cfg eye_data =
     (let avg_pupil_x = (pd_x (left_pupil eye_data) + pd_x (right_pupil eye_data)) / 2;
          avg_pupil_y = (pd_y (left_pupil eye_data) + pd_y (right_pupil eye_data)) / 2;
          avg_eye_x =
            ((real_of_int (er_x (left_eye eye_data))
                + real_of_int (er_width (left_eye eye_data)) / 2)
             + (real_of_int (er_x (right_eye eye_data))
                + real_of_int (er_width (right_eye eye_data)) / 2)) / 2;
          avg_eye_y =
            ((real_of_int (er_y (left_eye eye_data))
                + real_of_int (er_height (left_eye eye_data)) / 2)
             + (real_of_int (er_y (right_eye eye_data))
                + real_of_int (er_height (right_eye eye_data)) / 2)) / 2;
          pupil_displacement_x = avg_pupil_x - avg_eye_x;
          pupil_displacement_y = avg_pupil_y - avg_eye_y;
          gaze_displacement_x =
            pupil_displacement_x * pupil_to_gaze_ratio_x cfg * sensitivity_x cfg;
          gaze_displacement_y =
            pupil_displacement_y * pupil_to_gaze_ratio_y cfg * sensitivity_y cfg
      in (gaze_displacement_x, gaze_displacement_y))"

text \<open>
  Then the position before smoothing, clamped to \<open>[0, 1]\<close>, and the confidence: the mean
  of the eye and pupil confidences, halved when the gaze angle (in degrees) exceeds the
  configured maximum.
\<close>

definition clamped_position :: "gaze_config \<Rightarrow> EyeDetectionResult \<Rightarrow> real \<times> real" where
  "clamped_position cfg eye_data =
     (case gaze_displacement cfg eye_data of (gaze_displacement_x, gaze_displacement_y) \<Rightarrow>
        (max 0 (min 1 (gaze_center_x cfg + gaze_displacement_x / 1000 + offset_x cfg)),
         max 0 (min 1 (gaze_center_y cfg + gaze_displacement_y / 1000 + offset_y cfg))))"

definition gaze_confidence :: "gaze_config \<Rightarrow> EyeDetectionResult \<Rightarrow> real" where
  "gaze_confidence cfg eye_data =
     (case gaze_displacement cfg eye_data of (gaze_displacement_x, gaze_displacement_y) \<Rightarrow>
        let avg_eye_confidence =
              (er_confidence (left_eye eye_data) + er_confidence (right_eye eye_data)) / 2;
            avg_pupil_confidence =
              (pd_confidence (left_pupil eye_data) + pd_confidence (right_pupil eye_data)) / 2;
            confidence = (avg_eye_confidence + avg_pupil_confidence) / 2;
            gaze_angle = atan2 gaze_displacement_y gaze_displacement_x * 180 / pi
        in if \<bar>gaze_angle\<bar> > max_gaze_angle cfg then confidence * (1 / 2) else confidence)"

text \<open>
  Last the temporal smoothing against the anchor and the update of the anchor. The
  result is the returned point with the new anchor state.
\<close>

definition calculate_gaze_direction ::
  "gaze_config \<Rightarrow> gaze_state \<Rightarrow> EyeDetectionResult \<Rightarrow> GazePoint \<times> gaze_state" where
  "calculate_gaze_direction cfg st eye_data =
     (if \<not> valid eye_data then
        (\<lparr>gp_x = 0, gp_y = 0, gp_confidence = 0, gp_timestamp = timestamp eye_data\<rparr>, st)
      else
        case clamped_position cfg eye_data of (x, y) \<Rightarrow>
          let confidence = gaze_confidence cfg eye_data;
              smooth = (prev_gaze_valid st \<and> confidence \<ge> min_confidence_threshold cfg);
              alpha = smoothing_factor cfg;
              gaze_point =
                \<lparr>gp_x = (if smooth then alpha * gp_x (prev_gaze st) + (1 - alpha) * x else x),
                 gp_y = (if smooth then alpha * gp_y (prev_gaze st) + (1 - alpha) * y else y),
                 gp_confidence = confidence, gp_timestamp = timestamp eye_data\<rparr>
          in if confidence \<ge> min_confidence_threshold cfg
             then (gaze_point, \<lparr>prev_gaze = gaze_point, prev_gaze_valid = True\<rparr>)
             else (gaze_point, st))"

section \<open>Streaming session state (advanced_features.cpp)\<close>

text \<open>
  \<open>realtime_state\<close> without its camera handle: the camera is the environment, and what
  it delivers is an input of the functions below.
\<close>

record realtime_state =
  is_initialized :: bool
  recent_gaze_points :: "GazePoint list"
  max_history_size :: int

definition initial_realtime_state :: realtime_state where
  "initial_realtime_state =
     \<lparr>is_initialized = False, recent_gaze_points = [], max_history_size = 100\<rparr>"

text \<open>All statics the streaming path reads or writes, of both translation units.\<close>

record pipeline =
  realtime :: realtime_state
  gaze :: gaze_state

definition initial_pipeline :: pipeline where
  "initial_pipeline = \<lparr>realtime = initial_realtime_state, gaze = initial_gaze_state\<rparr>"

text \<open>
  \<open>init_realtime_processing\<close>: \<open>camera_opened\<close> is whether \<open>camera.open\<close> succeeded.
  The result is the returned status with the new state.
\<close>

definition init_realtime_processing :: "pipeline \<Rightarrow> bool \<Rightarrow> int \<times> pipeline" where
  "init_realtime_processing s camera_opened =
     (if is_initialized (realtime s) then (0, s)
      else if \<not> camera_opened then (- 1, s)
      else (0, s\<lparr>realtime := (realtime s)\<lparr>recent_gaze_points := [],
                                              is_initialized := True\<rparr>\<rparr>))"

definition cleanup_realtime_processing :: "pipeline \<Rightarrow> pipeline" where
  "cleanup_realtime_processing s =
     (if is_initialized (realtime s)
      then s\<lparr>realtime := (realtime s)\<lparr>recent_gaze_points := [], is_initialized := False\<rparr>\<rparr>
      else s)"

text \<open>
  The comparison \<open>recent_gaze_points.size() > max_history_size\<close> is between a
  \<open>size_t\<close> and an \<open>int\<close>: the \<open>int\<close> is converted to the unsigned 64-bit type first.
\<close>

definition size_t_of_int :: "int \<Rightarrow> nat" where
  "size_t_of_int n = nat (n mod 2 ^ 64)"

text \<open>
  \<open>process_realtime_frame\<close>: the input is \<open>None\<close> when \<open>camera.read\<close> fails, and
  \<open>Some e\<close> when a frame was read and \<open>detect_eyes_in_frame\<close> returned \<open>e\<close> for it.
\<close>

definition process_realtime_frame ::
  "gaze_config \<Rightarrow> pipeline \<Rightarrow> EyeDetectionResult option \<Rightarrow> GazePoint \<times> pipeline" where
  "process_realtime_frame cfg s frame =
     (if \<not> is_initialized (realtime s) then (zero_gaze_point, s)
      else case frame of
        None \<Rightarrow> (zero_gaze_point, s)
      | Some eye_result \<Rightarrow>
          if valid eye_result then
            let (gaze_point, g) = calculate_gaze_direction cfg (gaze s) eye_result;
                pushed = recent_gaze_points (realtime s) @ [gaze_point];
                limited =
                  (if length pushed > size_t_of_int (max_history_size (realtime s))
                   then tl pushed else pushed)
            in (gaze_point, \<lparr>realtime = (realtime s)\<lparr>recent_gaze_points := limited\<rparr>, gaze = g\<rparr>)
          else (zero_gaze_point, s))"

definition get_realtime_history :: "pipeline \<Rightarrow> GazePoint list" where
  "get_realtime_history s = recent_gaze_points (realtime s)"

text \<open>
  A polling loop: \<open>process_realtime_frame\<close> once per camera poll, collecting the
  returned points in order.
\<close>

fun run_frames ::
  "gaze_config \<Rightarrow> pipeline \<Rightarrow> EyeDetectionResult option list \<Rightarrow> GazePoint list \<times> pipeline" where
  "run_frames cfg s [] = ([], s)"
| "run_frames cfg s (f # fs) =
     (let (p, s1) = process_realtime_frame cfg s f;
          (ps, s2) = run_frames cfg s1 fs
      in (p # ps, s2))"

section \<open>Event classification (advanced_features.cpp)\<close>

record AttentionRegion =
  ar_x :: real
  ar_y :: real
  ar_duration :: real
  ar_intensity :: real
  ar_visit_count :: int

record saccade_params =
  velocity_threshold :: real
  acceleration_threshold :: real
  sac_min_duration_ms :: int
  sac_max_duration_ms :: int

definition default_saccade_params :: saccade_params where
  "default_saccade_params =
     \<lparr>velocity_threshold = 300, acceleration_threshold = 500,
      sac_min_duration_ms = 20, sac_max_duration_ms = 200\<rparr>"

record fixation_params =
  position_threshold :: real
  min_duration_ms :: int
  stability_threshold :: real

definition default_fixation_params :: fixation_params where
  "default_fixation_params =
     \<lparr>position_threshold = 25, min_duration_ms = 100, stability_threshold = 15\<rparr>"

subsection \<open>Saccades\<close>

text \<open>The body of the \<open>for\<close> loop of \<open>detect_saccades\<close> at index \<open>i\<close>.\<close>

definition saccade_step :: "saccade_params \<Rightarrow> GazePoint list \<Rightarrow> nat \<Rightarrow> int list \<Rightarrow> int list" where
  "saccade_step p gaze_points i saccade_indices =
     (let prev = gaze_points ! (i - 1);
          curr = gaze_points ! i;
          next = gaze_points ! (i + 1);
          dt1 = gp_timestamp curr - gp_timestamp prev;
          dt2 = gp_timestamp next - gp_timestamp curr
      in if dt1 \<le> 0 \<or> dt2 \<le> 0 then saccade_indices
         else
           let dx1 = gp_x curr - gp_x prev;
               dy1 = gp_y curr - gp_y prev;
               dx2 = gp_x next - gp_x curr;
               dy2 = gp_y next - gp_y curr;
               velocity1 = sqrt (dx1 * dx1 + dy1 * dy1) / dt1;
               velocity2 = sqrt (dx2 * dx2 + dy2 * dy2) / dt2;
               acceleration = \<bar>velocity2 - velocity1\<bar> / ((dt1 + dt2) / 2)
           in if velocity1 > velocity_threshold p \<or> velocity2 > velocity_threshold p
                 \<or> acceleration > acceleration_threshold p
              then saccade_indices @ [int i]
              else saccade_indices)"

function saccade_loop :: "saccade_params \<Rightarrow> GazePoint list \<Rightarrow> nat \<Rightarrow> int list \<Rightarrow> int list" where
  "saccade_loop p gaze_points i saccade_indices =
     (if i < length gaze_points - 1
      then saccade_loop p gaze_points (i + 1) (saccade_step p gaze_points i saccade_indices)
      else saccade_indices)"
  by pat_completeness auto
termination
  by (relation "measure (\<lambda>(p, gaze_points, i, acc). length gaze_points - i)") auto

declare saccade_loop.simps [simp del]

definition detect_saccades :: "saccade_params \<Rightarrow> GazePoint list \<Rightarrow> int list" where
  "detect_saccades p gaze_points =
     (if length gaze_points < 3 then [] else saccade_loop p gaze_points 1 [])"

subsection \<open>Fixations\<close>

text \<open>
  The inner \<open>for\<close> loop of \<open>detect_fixations\<close>: from index \<open>i\<close> on, points within the
  position threshold of the run's first point \<open>(fx, fy)\<close> extend the run; the first
  point outside it ends the scan. The accumulator is
  \<open>(end_idx, sum_x, sum_y, visit_count)\<close>.
\<close>

function scan_run ::
  "fixation_params \<Rightarrow> GazePoint list \<Rightarrow> real \<Rightarrow> real \<Rightarrow> nat \<Rightarrow> nat \<times> real \<times> real \<times> int
     \<Rightarrow> nat \<times> real \<times> real \<times> int" where
  "scan_run p gaze_points fx fy i (end_idx, sum_x, sum_y, visit_count) =
     (if i < length gaze_points then
        let distance = sqrt ((gp_x (gaze_points ! i) - fx)\<^sup>2 + (gp_y (gaze_points ! i) - fy)\<^sup>2)
        in if distance \<le> position_threshold p / 1000
           then scan_run p gaze_points fx fy (i + 1)
                  (i, sum_x + gp_x (gaze_points ! i), sum_y + gp_y (gaze_points ! i),
                   visit_count + 1)
           else (end_idx, sum_x, sum_y, visit_count)
      else (end_idx, sum_x, sum_y, visit_count))"
  by pat_completeness auto
termination
  by (relation "measure (\<lambda>(p, gaze_points, fx, fy, i, acc). length gaze_points - i)") auto

declare scan_run.simps [simp del]

text \<open>The scan of the run that starts at \<open>start_idx\<close>.\<close>

definition scan_from :: "fixation_params \<Rightarrow> GazePoint list \<Rightarrow> nat \<Rightarrow> nat \<times> real \<times> real \<times> int" where
  "scan_from p gaze_points start_idx =
     scan_run p gaze_points (gp_x (gaze_points ! start_idx)) (gp_y (gaze_points ! start_idx))
       (start_idx + 1)
       (start_idx, gp_x (gaze_points ! start_idx), gp_y (gaze_points ! start_idx), 1)"

text \<open>
  "Calculate fixation properties": the region of the run \<open>start_idx..end_idx\<close>, if the
  run has at least two points and lasts long enough; \<open>None\<close> is "nothing pushed".
\<close>

definition fixation_of_run ::
  "fixation_params \<Rightarrow> GazePoint list \<Rightarrow> nat \<Rightarrow> nat \<times> real \<times> real \<times> int
     \<Rightarrow> AttentionRegion option" where
  "fixation_of_run p gaze_points start_idx acc =
     (case acc of (end_idx, sum_x, sum_y, visit_count) \<Rightarrow>
        if end_idx > start_idx then
          let x = sum_x / real_of_int visit_count;
              y = sum_y / real_of_int visit_count;
              duration =
                (gp_timestamp (gaze_points ! end_idx) - gp_timestamp (gaze_points ! start_idx))
                  * 1000;
              stability0 =
                fold (\<lambda>i st. st + sqrt ((gp_x (gaze_points ! i) - x)\<^sup>2
                                          + (gp_y (gaze_points ! i) - y)\<^sup>2))
                  [start_idx ..< end_idx + 1] 0;
              stability = stability0 / real (end_idx - start_idx + 1);
              intensity = duration / (1 + stability * 1000)
          in if duration \<ge> real_of_int (min_duration_ms p)
             then Some \<lparr>ar_x = x, ar_y = y, ar_duration = duration, ar_intensity = intensity,
                        ar_visit_count = visit_count\<rparr>
             else None
        else None)"

lemma scan_run_end_ge:
  "min e i \<le> fst (scan_run p gaze_points fx fy i (e, sx, sy, vc))"
proof (induction p gaze_points fx fy i "(e, sx, sy, vc)" arbitrary: e sx sy vc rule: scan_run.induct)
  case (1 p gaze_points fx fy i end_idx sum_x sum_y visit_count)
  show ?case
  proof (cases "i < length gaze_points \<and>
      sqrt ((gp_x (gaze_points ! i) - fx)\<^sup>2 + (gp_y (gaze_points ! i) - fy)\<^sup>2)
        \<le> position_threshold p / 1000")
    case True
    with "1.hyps" show ?thesis
      by (subst scan_run.simps) (auto simp: Let_def min_def)
  next
    case False
    then show ?thesis
      by (subst scan_run.simps) (auto simp: Let_def)
  qed
qed

lemma scan_from_ge: "start_idx \<le> fst (scan_from p gaze_points start_idx)"
  using scan_run_end_ge[of start_idx "start_idx + 1" p gaze_points]
  by (simp add: scan_from_def)

text \<open>
  The outer \<open>while\<close> loop of \<open>detect_fixations\<close>, from \<open>start_idx\<close> with the fixations
  pushed so far.
\<close>

function fixation_loop ::
  "fixation_params \<Rightarrow> GazePoint list \<Rightarrow> nat \<Rightarrow> AttentionRegion list \<Rightarrow> AttentionRegion list" where
  "fixation_loop p gaze_points start_idx fixations =
     (if start_idx < length gaze_points then
        let acc = scan_from p gaze_points start_idx
        in fixation_loop p gaze_points (fst acc + 1)
             (case fixation_of_run p gaze_points start_idx acc of
                Some fixation \<Rightarrow> fixations @ [fixation]
              | None \<Rightarrow> fixations)
      else fixations)"
  by pat_completeness auto
termination
proof (relation "measure (\<lambda>(p, gaze_points, start_idx, fixations). length gaze_points - start_idx)")
  show "wf (measure (\<lambda>(p, gaze_points, start_idx, fixations). length gaze_points - start_idx))"
    by simp
next
  fix p :: fixation_params and gaze_points :: "GazePoint list" and start_idx :: nat
    and fixations :: "AttentionRegion list" and acc
  assume "start_idx < length gaze_points" and "acc = scan_from p gaze_points start_idx"
  then show "((p, gaze_points, fst acc + 1,
        case fixation_of_run p gaze_points start_idx acc of
          None \<Rightarrow> fixations | Some fixation \<Rightarrow> fixations @ [fixation]),
       p, gaze_points, start_idx, fixations)
      \<in> measure (\<lambda>(p, gaze_points, start_idx, fixations). length gaze_points - start_idx)"
    using scan_from_ge[of start_idx p gaze_points] by simp
qed

declare fixation_loop.simps [simp del]

definition detect_fixations :: "fixation_params \<Rightarrow> GazePoint list \<Rightarrow> AttentionRegion list" where
  "detect_fixations p gaze_points =
     (if gaze_points = [] then [] else fixation_loop p gaze_points 0 [])"

text \<open>
  The runs the outer loop scans, as pairs \<open>(start_idx, end_idx)\<close> of inclusive bounds, in
  the order in which it scans them: the same loop, recording the bounds.
\<close>

function fixation_runs :: "fixation_params \<Rightarrow> GazePoint list \<Rightarrow> nat \<Rightarrow> (nat \<times> nat) list" where
  "fixation_runs p gaze_points start_idx =
     (if start_idx < length gaze_points then
        let acc = scan_from p gaze_points start_idx
        in (start_idx, fst acc) # fixation_runs p gaze_points (fst acc + 1)
      else [])"
  by pat_completeness auto
termination
proof (relation "measure (\<lambda>(p, gaze_points, start_idx). length gaze_points - start_idx)")
  show "wf (measure (\<lambda>(p, gaze_points, start_idx). length gaze_points - start_idx))"
    by simp
next
  fix p :: fixation_params and gaze_points :: "GazePoint list" and start_idx :: nat and acc
  assume "start_idx < length gaze_points" and "acc = scan_from p gaze_points start_idx"
  then show "((p, gaze_points, fst acc + 1), p, gaze_points, start_idx)
      \<in> measure (\<lambda>(p, gaze_points, start_idx). length gaze_points - start_idx)"
    using scan_from_ge[of start_idx p gaze_points] by simp
qed

declare fixation_runs.simps [simp del]

section \<open>Density aggregation (heatmap.cpp)\<close>

record HeatmapConfig =
  color_scheme :: string
  intensity_multiplier :: real
  blur_radius :: int
  resolution_factor :: real
  alpha_transparency :: real

definition heatmap_config :: HeatmapConfig where
  "heatmap_config =
     \<lparr>color_scheme = ''sequential_blue'', intensity_multiplier = 1, blur_radius = 15,
      resolution_factor = 1, alpha_transparency = 6 / 10\<rparr>"

subsection \<open>The OpenCV matrix operations the function uses\<close>

text \<open>
  A single-channel \<open>cv::Mat\<close>: its dimensions and its cells, row by row. \<open>CV_32F\<close>
  cells are \<^typ>\<open>real\<close>, \<open>CV_8U\<close> cells are \<^typ>\<open>nat\<close>. OpenCV reports a failed
  assertion by throwing \<open>cv::Exception\<close>.
\<close>

record 'a Mat =
  mat_rows :: int
  mat_cols :: int
  mat_data :: "'a list list"

datatype cv_error = CvException

text \<open>The C cast \<open>(int)\<close> of a floating-point value truncates towards zero.\<close>

definition int_of_float :: "real \<Rightarrow> int" where
  "int_of_float r = (if 0 \<le> r then \<lfloor>r\<rfloor> else \<lceil>r\<rceil>)"

text \<open>\<open>Mat::zeros(rows, cols, CV_32F)\<close>; a negative dimension is refused.\<close>

definition Mat_zeros :: "int \<Rightarrow> int \<Rightarrow> cv_error + real Mat" where
  "Mat_zeros r c =
     (if r < 0 \<or> c < 0 then Inl CvException
      else Inr \<lparr>mat_rows = r, mat_cols = c, mat_data = replicate (nat r) (replicate (nat c) 0)\<rparr>)"

text \<open>A default-constructed \<open>Mat\<close>.\<close>

definition Mat_empty :: "'a Mat" where
  "Mat_empty = \<lparr>mat_rows = 0, mat_cols = 0, mat_data = []\<rparr>"

text \<open>
  \<open>convertTo(\<dots>, CV_8U)\<close> (of the target type only the depth counts, so \<open>CV_8UC3\<close> on
  a single-channel matrix is the same conversion): every cell is rounded to the nearest
  integer, ties to even, and saturated to \<open>0..255\<close>.
\<close>

definition cvRound :: "real \<Rightarrow> int" where
  "cvRound v =
     (let f = \<lfloor>v\<rfloor>; d = v - real_of_int f
      in if d < 1 / 2 then f else if 1 / 2 < d then f + 1 else if even f then f else f + 1)"

definition saturate_uchar :: "real \<Rightarrow> nat" where
  "saturate_uchar v = nat (max 0 (min 255 (cvRound v)))"

definition convertTo_8U :: "real Mat \<Rightarrow> nat Mat" where
  "convertTo_8U m =
     \<lparr>mat_rows = mat_rows m, mat_cols = mat_cols m,
      mat_data = map (map saturate_uchar) (mat_data m)\<rparr>"

text \<open>\<open>minMaxLoc\<close>: the least and the greatest cell, both \<open>0\<close> for a matrix without cells.\<close>

definition minMaxLoc :: "real Mat \<Rightarrow> real \<times> real" where
  "minMaxLoc m =
     (case concat (mat_data m) of
        [] \<Rightarrow> (0, 0)
      | v # vs \<Rightarrow> (fold min vs v, fold max vs v))"

text \<open>\<open>heatmap.at<float>(row, col) += v\<close>.\<close>

definition mat_add_at :: "real Mat \<Rightarrow> nat \<Rightarrow> nat \<Rightarrow> real \<Rightarrow> real Mat" where
  "mat_add_at m row col v =
     m\<lparr>mat_data := (mat_data m)[row := (mat_data m ! row)[col := mat_data m ! row ! col + v]]\<rparr>"

subsection \<open>The Gaussian kernel\<close>

text \<open>
  \<open>create_gaussian_kernel\<close>: the \<open>(2 radius + 1)\<close>-square matrix of Gaussian weights,
  divided by their sum. A negative size is refused by the \<open>Mat\<close> constructor.
\<close>

definition create_gaussian_kernel :: "int \<Rightarrow> real \<Rightarrow> cv_error + real Mat" where
  "create_gaussian_kernel radius sigma =
     (let size = 2 * radius + 1
      in if size < 0 then Inl CvException
         else
           let values =
                 map (\<lambda>y. map (\<lambda>x. exp (real_of_int (- (x * x + y * y)) / (2 * sigma * sigma)))
                              [- radius .. radius])
                     [- radius .. radius];
               sum = fold (\<lambda>value acc. acc + value) (concat values) 0
           in Inr \<lparr>mat_rows = size, mat_cols = size,
                   mat_data = map (map (\<lambda>value. value / sum)) values\<rparr>)"

subsection \<open>Accumulation\<close>

text \<open>"Add Gaussian blob at gaze point location": the two nested kernel loops.\<close>

definition add_gaussian_blob ::
  "HeatmapConfig \<Rightarrow> int \<Rightarrow> int \<Rightarrow> real Mat \<Rightarrow> int \<Rightarrow> int \<Rightarrow> GazePoint \<Rightarrow> real Mat \<Rightarrow> real Mat" where
  "add_gaussian_blob config heatmap_width heatmap_height kernel_mat x y gaze_point heatmap =
     (let kernel_radius = blur_radius config
      in fold (\<lambda>ky. fold (\<lambda>kx h.
                 let hx = x + kx; hy = y + ky
                 in if hx \<ge> 0 \<and> hx < heatmap_width \<and> hy \<ge> 0 \<and> hy < heatmap_height then
                      let kernel_value =
                            mat_data kernel_mat ! nat (ky + kernel_radius) ! nat (kx + kernel_radius);
                          weighted_value =
                            kernel_value * gp_confidence gaze_point * intensity_multiplier config
                      in mat_add_at h (nat hy) (nat hx) weighted_value
                    else h)
               [- kernel_radius .. kernel_radius])
           [- kernel_radius .. kernel_radius] heatmap)"

text \<open>
  The body of the loop over the gaze points (the progress bar prints nothing the result
  depends on): a point below confidence \<open>0.5\<close> is skipped, a point whose cell lies outside
  the grid is skipped, every other point deposits the kernel.
\<close>

definition accumulate_gaze_point ::
  "HeatmapConfig \<Rightarrow> int \<Rightarrow> int \<Rightarrow> real Mat \<Rightarrow> GazePoint \<Rightarrow> real Mat \<Rightarrow> real Mat" where
  "accumulate_gaze_point config heatmap_width heatmap_height kernel_mat gaze_point heatmap =
     (if gp_confidence gaze_point < 1 / 2 then heatmap
      else
        let x = int_of_float (gp_x gaze_point * real_of_int heatmap_width);
            y = int_of_float (gp_y gaze_point * real_of_int heatmap_height)
        in if x < 0 \<or> x \<ge> heatmap_width \<or> y < 0 \<or> y \<ge> heatmap_height then heatmap
           else add_gaussian_blob config heatmap_width heatmap_height kernel_mat x y gaze_point
                  heatmap)"

text \<open>"Normalize heatmap to 0-255 range".\<close>

definition normalize_heatmap :: "real Mat \<Rightarrow> real Mat" where
  "normalize_heatmap heatmap =
     (case minMaxLoc heatmap of (min_val, max_val) \<Rightarrow>
        if max_val > 0
        then heatmap\<lparr>mat_data :=
               map (map (\<lambda>v. (v - min_val) / (max_val - min_val) * 255)) (mat_data heatmap)\<rparr>
        else heatmap)"

text \<open>
  \<open>cv::resize\<close> asserts that its source has cells. \<open>generate_heatmap\<close> only ever hands
  it the default-constructed \<open>colored_heatmap\<close>, so the interpolation itself is not
  needed here.
\<close>

definition resize_of_empty :: "int \<Rightarrow> int \<Rightarrow> cv_error + nat Mat" where
  "resize_of_empty width height = Inl CvException"

text \<open>
  \<open>generate_heatmap\<close>. On the path of a non-empty point list the source declares
  \<open>colored_heatmap\<close>, colours \<open>heatmap_8bit\<close> in place (\<open>apply_color_scheme\<close> assigns to
  its reference parameter) and returns \<open>colored_heatmap\<close>, which nothing has assigned.
  The density field that path computes is \<open>density_field\<close> below.
\<close>

definition density_field ::
  "GazePoint list \<Rightarrow> int \<Rightarrow> int \<Rightarrow> HeatmapConfig \<Rightarrow> real Mat \<Rightarrow> real Mat \<Rightarrow> real Mat" where
  "density_field gaze_points heatmap_width heatmap_height config kernel_mat heatmap =
     fold (accumulate_gaze_point config heatmap_width heatmap_height kernel_mat) gaze_points heatmap"

definition generate_heatmap ::
  "GazePoint list \<Rightarrow> int \<Rightarrow> int \<Rightarrow> HeatmapConfig \<Rightarrow> cv_error + nat Mat" where
  "generate_heatmap gaze_points width height config =
     (let heatmap_width = int_of_float (real_of_int width * resolution_factor config);
          heatmap_height = int_of_float (real_of_int height * resolution_factor config)
      in case Mat_zeros heatmap_height heatmap_width of
           Inl e \<Rightarrow> Inl e
         | Inr heatmap \<Rightarrow>
             if gaze_points = [] then Inr (convertTo_8U heatmap)
             else
               case create_gaussian_kernel (blur_radius config)
                      (real_of_int (blur_radius config) / 3) of
                 Inl e \<Rightarrow> Inl e
               | Inr kernel_mat \<Rightarrow>
                   let accumulated =
                         density_field gaze_points heatmap_width heatmap_height config kernel_mat
                           heatmap;
                       heatmap_8bit = convertTo_8U (normalize_heatmap accumulated);
                       colored_heatmap = Mat_empty
                   in if resolution_factor config \<noteq> 1
                      then resize_of_empty width height
                      else Inr colored_heatmap)"

section \<open>Notions used in the statements\<close>

text \<open>
  The four confidences of a detection lie in \<open>[0, 1]\<close>; a point lies in the unit square;
  the anchor, when set, lies in the unit square.
\<close>

definition confidences_in_range :: "EyeDetectionResult \<Rightarrow> bool" where
  "confidences_in_range eye_data =
     (0 \<le> er_confidence (left_eye eye_data) \<and> er_confidence (left_eye eye_data) \<le> 1
      \<and> 0 \<le> er_confidence (right_eye eye_data) \<and> er_confidence (right_eye eye_data) \<le> 1
      \<and> 0 \<le> pd_confidence (left_pupil eye_data) \<and> pd_confidence (left_pupil eye_data) \<le> 1
      \<and> 0 \<le> pd_confidence (right_pupil eye_data) \<and> pd_confidence (right_pupil eye_data) \<le> 1)"

definition in_unit_square :: "GazePoint \<Rightarrow> bool" where
  "in_unit_square q = (0 \<le> gp_x q \<and> gp_x q \<le> 1 \<and> 0 \<le> gp_y q \<and> gp_y q \<le> 1)"

definition anchor_in_range :: "gaze_state \<Rightarrow> bool" where
  "anchor_in_range st = (if prev_gaze_valid st then in_unit_square (prev_gaze st) else True)"

text \<open>The last \<open>n\<close> elements of a list, in their order (the whole list if it is shorter).\<close>

definition keep_last :: "nat \<Rightarrow> 'a list \<Rightarrow> 'a list" where
  "keep_last n xs = drop (length xs - n) xs"

text \<open>Every poll delivers a frame in which the detector found the eyes.\<close>

definition all_valid :: "EyeDetectionResult option list \<Rightarrow> bool" where
  "all_valid frames = list_all (\<lambda>f. case f of None \<Rightarrow> False | Some e \<Rightarrow> valid e) frames"

text \<open>
  \<open>start()\<close> on the program's initial state, and \<open>stop()\<close> followed by
  \<open>start()\<close> on any state of the pipeline; in both the camera opens.
\<close>

definition fresh_pipeline :: pipeline where
  "fresh_pipeline = snd (init_realtime_processing initial_pipeline True)"

definition restart_pipeline :: "pipeline \<Rightarrow> pipeline" where
  "restart_pipeline s = snd (init_realtime_processing (cleanup_realtime_processing s) True)"

text \<open>
  The saccade criterion in the specification's words: for an interior index \<open>i\<close>, the
  velocity of the incoming and of the outgoing segment is the Euclidean distance over the
  elapsed time, the acceleration is the absolute velocity difference over the mean of the
  two elapsed times; \<open>i\<close> is a saccade when both elapsed times are positive and either
  velocity exceeds the velocity threshold or the acceleration exceeds the acceleration
  threshold.
\<close>

definition euclid :: "GazePoint \<Rightarrow> GazePoint \<Rightarrow> real" where
  "euclid a b = sqrt ((gp_x b - gp_x a)\<^sup>2 + (gp_y b - gp_y a)\<^sup>2)"

definition is_saccade_spec :: "saccade_params \<Rightarrow> GazePoint list \<Rightarrow> nat \<Rightarrow> bool" where
  "is_saccade_spec p gaze_points i =
     (let elapsed_in = gp_timestamp (gaze_points ! i) - gp_timestamp (gaze_points ! (i - 1));
          elapsed_out = gp_timestamp (gaze_points ! (i + 1)) - gp_timestamp (gaze_points ! i);
          velocity_in = euclid (gaze_points ! (i - 1)) (gaze_points ! i) / elapsed_in;
          velocity_out = euclid (gaze_points ! i) (gaze_points ! (i + 1)) / elapsed_out;
          acceleration = \<bar>velocity_out - velocity_in\<bar> / ((elapsed_in + elapsed_out) / 2)
      in 0 < elapsed_in \<and> 0 < elapsed_out
         \<and> (velocity_in > velocity_threshold p \<or> velocity_out > velocity_threshold p
            \<or> acceleration > acceleration_threshold p))"

text \<open>
  The indices of a run \<open>(start_idx, end_idx)\<close>, what the outer loop of
  \<open>detect_fixations\<close> pushes for the run it scans from \<open>start_idx\<close> (nothing or one
  region), and the duration of a run in milliseconds.
\<close>

definition run_indices :: "nat \<times> nat \<Rightarrow> nat list" where
  "run_indices r = (case r of (start_idx, end_idx) \<Rightarrow> [start_idx ..< end_idx + 1])"

definition fixation_at :: "fixation_params \<Rightarrow> GazePoint list \<Rightarrow> nat \<times> nat \<Rightarrow> AttentionRegion option" where
  "fixation_at p gaze_points r =
     (case r of (start_idx, end_idx) \<Rightarrow>
        fixation_of_run p gaze_points start_idx (scan_from p gaze_points start_idx))"

definition run_duration :: "GazePoint list \<Rightarrow> nat \<times> nat \<Rightarrow> real" where
  "run_duration gaze_points r =
     (case r of (start_idx, end_idx) \<Rightarrow>
        (gp_timestamp (gaze_points ! end_idx) - gp_timestamp (gaze_points ! start_idx)) * 1000)"

section \<open>Sample inputs\<close>

text \<open>
  A detection with both eye boxes 40 by 20 pixels, both pupils \<open>dx\<close> pixels to the
  right of the centre of their box, every confidence equal to \<open>conf\<close>, captured at
  time \<open>t\<close>. The pupil displacement is \<open>(dx, 0)\<close>, so the gaze angle is \<open>0\<close>.
\<close>

definition sample_eye :: "real \<Rightarrow> real \<Rightarrow> real \<Rightarrow> EyeDetectionResult" where
  "sample_eye dx conf t =
     \<lparr>left_eye = \<lparr>er_x = 100, er_y = 100, er_width = 40, er_height = 20, er_confidence = conf\<rparr>,
      right_eye = \<lparr>er_x = 200, er_y = 100, er_width = 40, er_height = 20, er_confidence = conf\<rparr>,
      left_pupil = \<lparr>pd_x = 120 + dx, pd_y = 110, pd_radius = 5, pd_confidence = conf\<rparr>,
      right_pupil = \<lparr>pd_x = 220 + dx, pd_y = 110, pd_radius = 5, pd_confidence = conf\<rparr>,
      valid = True, timestamp = t\<rparr>"

text \<open>A smoothing anchor that holds an accepted point at \<open>(x, y)\<close>.\<close>

definition anchored :: "real \<Rightarrow> real \<Rightarrow> gaze_state" where
  "anchored x y =
     \<lparr>prev_gaze = \<lparr>gp_x = x, gp_y = y, gp_confidence = 9 / 10, gp_timestamp = 1\<rparr>,
      prev_gaze_valid = True\<rparr>"

text \<open>
  A session whose buffer holds at most three points, and five polls; the second poll is a
  low-confidence detection, the others are accepted and smoothed.
\<close>

definition capacity3_session :: pipeline where
  "capacity3_session =
     \<lparr>realtime = \<lparr>is_initialized = True, recent_gaze_points = [], max_history_size = 3\<rparr>,
      gaze = initial_gaze_state\<rparr>"

definition five_frames :: "EyeDetectionResult option list" where
  "five_frames =
     [Some (sample_eye 125 (4 / 5) 1), Some (sample_eye 250 (1 / 2) 2),
      Some (sample_eye 375 (4 / 5) 3), Some (sample_eye 500 (4 / 5) 4),
      Some (sample_eye 625 (4 / 5) 5)]"

text \<open>
  A first session in which one point was accepted (the anchor is set), and one in which
  the only point was of low confidence (the anchor is untouched).
\<close>

definition first_session :: pipeline where
  "first_session =
     snd (run_frames default_gaze_config fresh_pipeline [Some (sample_eye 625 (4 / 5) 1)])"

definition quiet_session :: pipeline where
  "quiet_session =
     snd (run_frames default_gaze_config fresh_pipeline [Some (sample_eye 625 (1 / 2) 1)])"

text \<open>A gaze point of full confidence.\<close>

definition sample_point :: "real \<Rightarrow> real \<Rightarrow> real \<Rightarrow> GazePoint" where
  "sample_point x y t = \<lparr>gp_x = x, gp_y = y, gp_confidence = 1, gp_timestamp = t\<rparr>"

text \<open>
  A jump from \<open>x = 0\<close> to \<open>x = 1\<close> within two milliseconds, followed by two samples
  with the same timestamp.
\<close>

definition jump_points :: "GazePoint list" where
  "jump_points =
     [sample_point 0 (1 / 2) 0, sample_point 1 (1 / 2) (2 / 1000),
      sample_point 1 (1 / 2) (4 / 1000), sample_point 1 (1 / 2) (4 / 1000),
      sample_point 1 (1 / 2) 1]"

text \<open>
  Two points at one place 100 ms apart, then two points at another place 99 ms apart.
\<close>

definition boundary_points :: "GazePoint list" where
  "boundary_points =
     [sample_point 0 (1 / 2) 0, sample_point 0 (1 / 2) (1 / 10),
      sample_point 1 (1 / 2) (2 / 10), sample_point 1 (1 / 2) (299 / 1000)]"

text \<open>
  The kernel of the default heatmap configuration and the zero grid of a 640 by 480
  frame.
\<close>

definition default_kernel :: "real Mat" where
  "default_kernel =
     (case create_gaussian_kernel (blur_radius heatmap_config)
             (real_of_int (blur_radius heatmap_config) / 3) of
        Inl e \<Rightarrow> Mat_empty
      | Inr kernel_mat \<Rightarrow> kernel_mat)"

definition zero_grid :: "real Mat" where
  "zero_grid = (case Mat_zeros 480 640 of Inl e \<Rightarrow> Mat_empty | Inr heatmap \<Rightarrow> heatmap)"

section \<open>Properties of the gaze estimator\<close>

text \<open>The estimator on a sample detection, under the default configuration.\<close>

lemma sample_eye_gaze:
  "0 < dx \<Longrightarrow> calculate_gaze_direction default_gaze_config st (sample_eye dx conf t) =
     (let x0 = max 0 (min 1 (1 / 2 + dx * (8 / 10) / 1000));
          smooth = (prev_gaze_valid st \<and> 7 / 10 \<le> conf);
          q = \<lparr>gp_x = (if smooth then 3 / 10 * gp_x (prev_gaze st) + 7 / 10 * x0 else x0),
               gp_y = (if smooth then 3 / 10 * gp_y (prev_gaze st) + 7 / 10 * (1 / 2) else 1 / 2),
               gp_confidence = conf, gp_timestamp = t\<rparr>
      in (q, if 7 / 10 \<le> conf then \<lparr>prev_gaze = q, prev_gaze_valid = True\<rparr> else st))"
  by (simp add: calculate_gaze_direction_def clamped_position_def gaze_confidence_def
      gaze_displacement_def default_gaze_config_def sample_eye_def atan2_def Let_def
      add_divide_distrib)

text \<open>
  Claim C5. Whatever the smoothing anchor holds (in particular a previously accepted point
  \<open>P\<close>), when the confidence computed for a new detection is below the minimum-confidence
  threshold, the anchor after \<open>calculate_gaze_direction\<close> is the anchor before it: a
  low-confidence point never replaces the anchor.
\<close>

theorem low_confidence_keeps_anchor:
  "gp_confidence (fst (calculate_gaze_direction cfg st eye_data)) < min_confidence_threshold cfg
   \<Longrightarrow> snd (calculate_gaze_direction cfg st eye_data) = st"
  by (cases "clamped_position cfg eye_data")
     (auto simp: calculate_gaze_direction_def Let_def)

theorem low_confidence_keeps_anchor_witness:
  "gp_confidence (fst (calculate_gaze_direction default_gaze_config (anchored (2 / 5) (3 / 5))
       (sample_eye 125 (11 / 20) 2))) = 11 / 20
   \<and> 11 / 20 < min_confidence_threshold default_gaze_config
   \<and> snd (calculate_gaze_direction default_gaze_config (anchored (2 / 5) (3 / 5))
       (sample_eye 125 (11 / 20) 2)) = anchored (2 / 5) (3 / 5)"
proof -
  have c: "gp_confidence (fst (calculate_gaze_direction default_gaze_config
       (anchored (2 / 5) (3 / 5)) (sample_eye 125 (11 / 20) 2))) = 11 / 20"
    by (simp add: sample_eye_gaze Let_def)
  have t: "(11 / 20 :: real) < min_confidence_threshold default_gaze_config"
    by (simp add: default_gaze_config_def)
  from c t low_confidence_keeps_anchor[of default_gaze_config "anchored (2 / 5) (3 / 5)"
      "sample_eye 125 (11 / 20) 2"]
  show ?thesis by simp
qed

text \<open>A convex combination of two numbers of the unit interval lies in the unit interval.\<close>

lemma convex_unit:
  fixes a p x :: real
  assumes "0 \<le> a" "a \<le> 1" "0 \<le> p" "p \<le> 1" "0 \<le> x" "x \<le> 1"
  shows "0 \<le> a * p + (1 - a) * x" and "a * p + (1 - a) * x \<le> 1"
proof -
  from assms show "0 \<le> a * p + (1 - a) * x" by simp
  have "a * p \<le> a * 1" using assms by (intro mult_left_mono) auto
  moreover have "(1 - a) * x \<le> (1 - a) * 1" using assms by (intro mult_left_mono) auto
  ultimately show "a * p + (1 - a) * x \<le> 1" by simp
qed

lemma clamped_position_range:
  "0 \<le> fst (clamped_position cfg eye_data) \<and> fst (clamped_position cfg eye_data) \<le> 1
   \<and> 0 \<le> snd (clamped_position cfg eye_data) \<and> snd (clamped_position cfg eye_data) \<le> 1"
  by (cases "gaze_displacement cfg eye_data") (simp add: clamped_position_def)

lemma gaze_confidence_range:
  "confidences_in_range eye_data \<Longrightarrow>
   0 \<le> gaze_confidence cfg eye_data \<and> gaze_confidence cfg eye_data \<le> 1"
proof -
  define a where "a = er_confidence (left_eye eye_data)"
  define b where "b = er_confidence (right_eye eye_data)"
  define c where "c = pd_confidence (left_pupil eye_data)"
  define d where "d = pd_confidence (right_pupil eye_data)"
  assume "confidences_in_range eye_data"
  then have r: "0 \<le> a" "a \<le> 1" "0 \<le> b" "b \<le> 1" "0 \<le> c" "c \<le> 1" "0 \<le> d" "d \<le> 1"
    by (simp_all add: confidences_in_range_def a_def b_def c_def d_def)
  from r have m1: "0 \<le> ((a + b) / 2 + (c + d) / 2) / 2" by argo
  from r have m2: "((a + b) / 2 + (c + d) / 2) / 2 \<le> 1" by argo
  from m1 have h1: "0 \<le> ((a + b) / 2 + (c + d) / 2) / 2 * (1 / 2)" by argo
  from m1 m2 have h2: "((a + b) / 2 + (c + d) / 2) / 2 * (1 / 2) \<le> 1" by argo
  from m1 m2 h1 h2 show ?thesis
    unfolding gaze_confidence_def Let_def a_def b_def c_def d_def
    by (cases "gaze_displacement cfg eye_data") (simp split: if_splits)
qed

text \<open>
  Claim C2, as the code has it. The claim as stated (every detection, every anchor state)
  fails: the confidence is a mean of the input confidences and is never clamped, and the
  smoothing mixes the clamped position with whatever the anchor holds.
  \<^item> A detection whose four confidences are \<open>2\<close> yields a point of confidence \<open>2\<close>.
  \<^item> An anchor at \<open>x = 5\<close> yields a smoothed \<open>x\<close> above \<open>1\<close>.
  \<^item> A configured smoothing factor of \<open>2\<close> yields, from an anchor at \<open>x = 1\<close>, a smoothed
    \<open>x\<close> above \<open>1\<close>.
\<close>

theorem gaze_point_in_range_counterexample:
  "\<not> gp_confidence (fst (calculate_gaze_direction default_gaze_config initial_gaze_state
        (sample_eye 125 2 0))) \<le> 1
   \<and> \<not> gp_x (fst (calculate_gaze_direction default_gaze_config (anchored 5 (1 / 2))
        (sample_eye 125 (4 / 5) 2))) \<le> 1
   \<and> \<not> gp_x (fst (calculate_gaze_direction (default_gaze_config\<lparr>smoothing_factor := 2\<rparr>)
        (anchored 1 (1 / 2)) (sample_eye 125 (4 / 5) 2))) \<le> 1"
proof -
  have "gp_x (fst (calculate_gaze_direction (default_gaze_config\<lparr>smoothing_factor := 2\<rparr>)
        (anchored 1 (1 / 2)) (sample_eye 125 (4 / 5) 2))) = 7 / 5"
    by (simp add: calculate_gaze_direction_def clamped_position_def gaze_confidence_def
        gaze_displacement_def default_gaze_config_def sample_eye_def atan2_def Let_def
        anchored_def)
  then show ?thesis
    by (simp add: sample_eye_gaze Let_def initial_gaze_state_def anchored_def)
qed

text \<open>
  Claim C2, amended. When the four confidences of the detection lie in \<open>[0, 1]\<close>, the
  anchor (if set) lies in the unit square and the smoothing factor lies in \<open>[0, 1]\<close>, the
  returned point has \<open>x\<close>, \<open>y\<close> and confidence in \<open>[0, 1]\<close>; and the anchor afterwards
  lies in the unit square again, so the condition on the anchor holds along every run
  that starts without an anchor.
\<close>

theorem gaze_point_in_range:
  assumes conf: "confidences_in_range eye_data"
    and anchor: "anchor_in_range st"
    and alpha: "0 \<le> smoothing_factor cfg" "smoothing_factor cfg \<le> 1"
  shows "in_unit_square (fst (calculate_gaze_direction cfg st eye_data))
    \<and> 0 \<le> gp_confidence (fst (calculate_gaze_direction cfg st eye_data))
    \<and> gp_confidence (fst (calculate_gaze_direction cfg st eye_data)) \<le> 1
    \<and> anchor_in_range (snd (calculate_gaze_direction cfg st eye_data))"
proof (cases "valid eye_data")
  case False
  with anchor show ?thesis
    by (simp add: calculate_gaze_direction_def in_unit_square_def)
next
  case True
  obtain x y where xy: "clamped_position cfg eye_data = (x, y)"
    by (cases "clamped_position cfg eye_data")
  with clamped_position_range[of cfg eye_data]
  have r: "0 \<le> x" "x \<le> 1" "0 \<le> y" "y \<le> 1" by simp_all
  note c = gaze_confidence_range[OF conf, of cfg]
  show ?thesis
  proof (cases "prev_gaze_valid st \<and> min_confidence_threshold cfg \<le> gaze_confidence cfg eye_data")
    case smooth: True
    with anchor have p: "0 \<le> gp_x (prev_gaze st)" "gp_x (prev_gaze st) \<le> 1"
        "0 \<le> gp_y (prev_gaze st)" "gp_y (prev_gaze st) \<le> 1"
      by (simp_all add: anchor_in_range_def in_unit_square_def)
    from True xy smooth c
      convex_unit[OF alpha p(1,2) r(1,2)] convex_unit[OF alpha p(3,4) r(3,4)]
    show ?thesis
      by (simp add: calculate_gaze_direction_def Let_def in_unit_square_def anchor_in_range_def)
  next
    case False
    with True xy r c anchor show ?thesis
      by (auto simp: calculate_gaze_direction_def Let_def in_unit_square_def anchor_in_range_def)
  qed
qed

theorem gaze_point_in_range_witness:
  "confidences_in_range (sample_eye 125 (4 / 5) 2) \<and> anchor_in_range (anchored (2 / 5) (3 / 5))
   \<and> fst (calculate_gaze_direction default_gaze_config (anchored (2 / 5) (3 / 5))
         (sample_eye 125 (4 / 5) 2))
       = \<lparr>gp_x = 27 / 50, gp_y = 53 / 100, gp_confidence = 4 / 5, gp_timestamp = 2\<rparr>
   \<and> in_unit_square \<lparr>gp_x = 27 / 50, gp_y = 53 / 100, gp_confidence = 4 / 5, gp_timestamp = 2\<rparr>"
proof -
  have c: "confidences_in_range (sample_eye 125 (4 / 5) 2)"
    by (simp add: confidences_in_range_def sample_eye_def)
  have a: "anchor_in_range (anchored (2 / 5) (3 / 5))"
    by (simp add: anchor_in_range_def anchored_def in_unit_square_def)
  have s: "0 \<le> smoothing_factor default_gaze_config" "smoothing_factor default_gaze_config \<le> 1"
    by (simp_all add: default_gaze_config_def)
  have v: "fst (calculate_gaze_direction default_gaze_config (anchored (2 / 5) (3 / 5))
         (sample_eye 125 (4 / 5) 2))
       = \<lparr>gp_x = 27 / 50, gp_y = 53 / 100, gp_confidence = 4 / 5, gp_timestamp = 2\<rparr>"
    by (simp add: sample_eye_gaze Let_def anchored_def)
  from gaze_point_in_range[OF c a s] c a v show ?thesis by simp
qed

section \<open>Properties of the streaming session\<close>

lemma keep_last_append:
  "keep_last n (keep_last n xs @ ys) = keep_last n (xs @ ys)"
  by (cases "length xs \<le> n") (auto simp: keep_last_def add.commute)

lemma keep_last_short: "length xs \<le> n \<Longrightarrow> keep_last n xs = xs"
  by (simp add: keep_last_def)

lemma length_keep_last: "length (keep_last n xs) \<le> n"
  by (simp add: keep_last_def)

lemma size_t_of_int_nat: "0 \<le> n \<Longrightarrow> n < 2 ^ 64 \<Longrightarrow> size_t_of_int n = nat n"
  by (simp add: size_t_of_int_def)

lemma process_realtime_frame_static:
  "max_history_size (realtime (snd (process_realtime_frame cfg s f))) = max_history_size (realtime s)
   \<and> is_initialized (realtime (snd (process_realtime_frame cfg s f))) = is_initialized (realtime s)"
  by (cases f; cases "calculate_gaze_direction cfg (gaze s) (the f)")
     (auto simp: process_realtime_frame_def Let_def)

lemma process_realtime_frame_length:
  assumes "length (recent_gaze_points (realtime s)) \<le> size_t_of_int (max_history_size (realtime s))"
  shows "length (recent_gaze_points (realtime (snd (process_realtime_frame cfg s f))))
           \<le> size_t_of_int (max_history_size (realtime s))"
  using assms
  by (cases f; cases "calculate_gaze_direction cfg (gaze s) (the f)")
     (auto simp: process_realtime_frame_def Let_def)

lemma process_realtime_frame_ingest:
  assumes "is_initialized (realtime s)" "valid e"
    and "length (recent_gaze_points (realtime s)) \<le> size_t_of_int (max_history_size (realtime s))"
  shows "recent_gaze_points (realtime (snd (process_realtime_frame cfg s (Some e))))
           = keep_last (size_t_of_int (max_history_size (realtime s)))
               (recent_gaze_points (realtime s) @ [fst (process_realtime_frame cfg s (Some e))])"
proof -
  obtain q g where c: "calculate_gaze_direction cfg (gaze s) e = (q, g)"
    by (cases "calculate_gaze_direction cfg (gaze s) e")
  define buf where "buf = recent_gaze_points (realtime s)"
  define cap where "cap = size_t_of_int (max_history_size (realtime s))"
  from assms(3) have le: "length buf \<le> cap" by (simp add: buf_def cap_def)
  have k: "(if cap < length (buf @ [q]) then tl (buf @ [q]) else buf @ [q]) = keep_last cap (buf @ [q])"
  proof (cases "length buf = cap")
    case True
    then show ?thesis by (cases buf) (auto simp: keep_last_def)
  next
    case False
    with le show ?thesis by (simp add: keep_last_def)
  qed
  from assms(1,2) c have "recent_gaze_points (realtime (snd (process_realtime_frame cfg s (Some e))))
      = (if cap < length (buf @ [q]) then tl (buf @ [q]) else buf @ [q])"
    and "fst (process_realtime_frame cfg s (Some e)) = q"
    by (simp_all add: process_realtime_frame_def Let_def buf_def cap_def)
  with k show ?thesis
    by (simp only: buf_def cap_def)
qed


lemma run_frames_Cons:
  "fst (run_frames cfg s (f # frames))
     = fst (process_realtime_frame cfg s f)
         # fst (run_frames cfg (snd (process_realtime_frame cfg s f)) frames)"
  "snd (run_frames cfg s (f # frames))
     = snd (run_frames cfg (snd (process_realtime_frame cfg s f)) frames)"
  by (simp_all add: case_prod_beta)

lemma run_frames_static:
  "max_history_size (realtime (snd (run_frames cfg s frames))) = max_history_size (realtime s)
   \<and> is_initialized (realtime (snd (run_frames cfg s frames))) = is_initialized (realtime s)"
proof (induction frames arbitrary: s)
  case Nil
  show ?case by simp
next
  case (Cons f frames)
  from Cons[of "snd (process_realtime_frame cfg s f)"] process_realtime_frame_static[of cfg s f]
  show ?case by (simp add: run_frames_Cons del: run_frames.simps)
qed

lemma run_frames_length:
  "length (recent_gaze_points (realtime s)) \<le> size_t_of_int (max_history_size (realtime s)) \<Longrightarrow>
   length (recent_gaze_points (realtime (snd (run_frames cfg s frames))))
     \<le> size_t_of_int (max_history_size (realtime s))"
proof (induction frames arbitrary: s)
  case Nil
  then show ?case by simp
next
  case (Cons f frames)
  from Cons.IH[of "snd (process_realtime_frame cfg s f)"] Cons.prems
    process_realtime_frame_static[of cfg s f] process_realtime_frame_length[of s cfg f]
  show ?case by (simp add: run_frames_Cons del: run_frames.simps)
qed

lemma run_frames_fifo:
  "is_initialized (realtime s) \<Longrightarrow> all_valid frames \<Longrightarrow>
   length (recent_gaze_points (realtime s)) \<le> size_t_of_int (max_history_size (realtime s)) \<Longrightarrow>
   recent_gaze_points (realtime (snd (run_frames cfg s frames)))
     = keep_last (size_t_of_int (max_history_size (realtime s)))
         (recent_gaze_points (realtime s) @ fst (run_frames cfg s frames))"
proof (induction frames arbitrary: s)
  case Nil
  then show ?case by (simp add: keep_last_short)
next
  case (Cons f frames)
  from Cons.prems(2) obtain e where f: "f = Some e" and e: "valid e" and rest: "all_valid frames"
    by (cases f) (auto simp: all_valid_def)
  define s1 where "s1 = snd (process_realtime_frame cfg s f)"
  define q where "q = fst (process_realtime_frame cfg s f)"
  define cap where "cap = size_t_of_int (max_history_size (realtime s))"
  have st: "max_history_size (realtime s1) = max_history_size (realtime s)"
      "is_initialized (realtime s1)"
    using process_realtime_frame_static[of cfg s f] Cons.prems(1) by (simp_all add: s1_def)
  have len: "length (recent_gaze_points (realtime s1)) \<le> cap"
    using process_realtime_frame_length[OF Cons.prems(3), of cfg f] by (simp add: s1_def cap_def)
  have step: "recent_gaze_points (realtime s1) = keep_last cap (recent_gaze_points (realtime s) @ [q])"
    using process_realtime_frame_ingest[OF Cons.prems(1) e Cons.prems(3), of cfg]
    by (simp add: s1_def q_def cap_def f)
  have "recent_gaze_points (realtime (snd (run_frames cfg s1 frames)))
      = keep_last cap (recent_gaze_points (realtime s1) @ fst (run_frames cfg s1 frames))"
    using Cons.IH[OF st(2) rest] len st(1) by (simp add: cap_def)
  also have "\<dots> = keep_last cap ((recent_gaze_points (realtime s) @ [q]) @ fst (run_frames cfg s1 frames))"
    by (simp only: step keep_last_append)
  finally show ?case
    by (simp add: s1_def q_def cap_def run_frames_Cons del: run_frames.simps)
qed

text \<open>The streaming step on a sample detection, and the states of the sample sessions.\<close>

lemma sample_frame:
  "0 < dx \<Longrightarrow> is_initialized (realtime s) \<Longrightarrow>
   process_realtime_frame default_gaze_config s (Some (sample_eye dx conf t)) =
     (let (q, g) = calculate_gaze_direction default_gaze_config (gaze s) (sample_eye dx conf t);
          pushed = recent_gaze_points (realtime s) @ [q]
      in (q, \<lparr>realtime = (realtime s)\<lparr>recent_gaze_points :=
                 if length pushed > size_t_of_int (max_history_size (realtime s))
                 then tl pushed else pushed\<rparr>, gaze = g\<rparr>))"
  by (simp add: process_realtime_frame_def sample_eye_def Let_def)

lemma fresh_pipeline_eq:
  "fresh_pipeline =
     \<lparr>realtime = \<lparr>is_initialized = True, recent_gaze_points = [], max_history_size = 100\<rparr>,
      gaze = initial_gaze_state\<rparr>"
  by (simp add: fresh_pipeline_def init_realtime_processing_def initial_pipeline_def
      initial_realtime_state_def)

lemma five_frames_run:
  "run_frames default_gaze_config capacity3_session five_frames =
    ([\<lparr>gp_x = 3 / 5, gp_y = 1 / 2, gp_confidence = 4 / 5, gp_timestamp = 1\<rparr>,
      \<lparr>gp_x = 7 / 10, gp_y = 1 / 2, gp_confidence = 1 / 2, gp_timestamp = 2\<rparr>,
      \<lparr>gp_x = 37 / 50, gp_y = 1 / 2, gp_confidence = 4 / 5, gp_timestamp = 3\<rparr>,
      \<lparr>gp_x = 213 / 250, gp_y = 1 / 2, gp_confidence = 4 / 5, gp_timestamp = 4\<rparr>,
      \<lparr>gp_x = 2389 / 2500, gp_y = 1 / 2, gp_confidence = 4 / 5, gp_timestamp = 5\<rparr>],
     \<lparr>realtime =
        \<lparr>is_initialized = True,
         recent_gaze_points =
           [\<lparr>gp_x = 37 / 50, gp_y = 1 / 2, gp_confidence = 4 / 5, gp_timestamp = 3\<rparr>,
            \<lparr>gp_x = 213 / 250, gp_y = 1 / 2, gp_confidence = 4 / 5, gp_timestamp = 4\<rparr>,
            \<lparr>gp_x = 2389 / 2500, gp_y = 1 / 2, gp_confidence = 4 / 5, gp_timestamp = 5\<rparr>],
         max_history_size = 3\<rparr>,
      gaze =
        \<lparr>prev_gaze = \<lparr>gp_x = 2389 / 2500, gp_y = 1 / 2, gp_confidence = 4 / 5, gp_timestamp = 5\<rparr>,
         prev_gaze_valid = True\<rparr>\<rparr>)"
  by (simp add: five_frames_def capacity3_session_def sample_frame sample_eye_gaze Let_def
      initial_gaze_state_def size_t_of_int_def)

lemma first_session_eq:
  "first_session =
     \<lparr>realtime = \<lparr>is_initialized = True,
                  recent_gaze_points =
                    [\<lparr>gp_x = 1, gp_y = 1 / 2, gp_confidence = 4 / 5, gp_timestamp = 1\<rparr>],
                  max_history_size = 100\<rparr>,
      gaze = \<lparr>prev_gaze = \<lparr>gp_x = 1, gp_y = 1 / 2, gp_confidence = 4 / 5, gp_timestamp = 1\<rparr>,
              prev_gaze_valid = True\<rparr>\<rparr>"
  by (simp add: first_session_def fresh_pipeline_eq sample_frame sample_eye_gaze Let_def
      initial_gaze_state_def size_t_of_int_def)

lemma quiet_session_eq:
  "quiet_session =
     \<lparr>realtime = \<lparr>is_initialized = True,
                  recent_gaze_points =
                    [\<lparr>gp_x = 1, gp_y = 1 / 2, gp_confidence = 1 / 2, gp_timestamp = 1\<rparr>],
                  max_history_size = 100\<rparr>,
      gaze = initial_gaze_state\<rparr>"
  by (simp add: quiet_session_def fresh_pipeline_eq sample_frame sample_eye_gaze Let_def
      initial_gaze_state_def size_t_of_int_def)

text \<open>
  Claim C9. Let the capacity \<open>max_history_size\<close> be a non-negative number that
  \<open>size_t\<close> holds, and let the buffer start with at most that many points. Then after any
  sequence of polls (frames read or not, eyes found or not) the buffer returned by
  \<open>get_realtime_history\<close> holds at most \<open>max_history_size\<close> points. When the session
  is initialised and every poll delivers a valid detection, the buffer is exactly the
  last \<open>max_history_size\<close> of the points it started with followed by the points
  returned, in their order: eviction is oldest first.
\<close>

theorem rolling_buffer_bounded_fifo:
  assumes "0 \<le> max_history_size (realtime s)" and "max_history_size (realtime s) < 2 ^ 64"
    and "length (recent_gaze_points (realtime s)) \<le> nat (max_history_size (realtime s))"
  shows "length (get_realtime_history (snd (run_frames cfg s frames)))
           \<le> nat (max_history_size (realtime s))
    \<and> (is_initialized (realtime s) \<and> all_valid frames \<longrightarrow>
         get_realtime_history (snd (run_frames cfg s frames))
           = keep_last (nat (max_history_size (realtime s)))
               (recent_gaze_points (realtime s) @ fst (run_frames cfg s frames)))"
  using assms run_frames_length[of s cfg frames] run_frames_fifo[of s frames cfg]
  by (simp add: size_t_of_int_nat get_realtime_history_def)

text \<open>
  The specification's third example: capacity 3, five points ingested, the snapshot is
  exactly the last three in their order.
\<close>

theorem rolling_buffer_bounded_fifo_witness:
  "0 \<le> max_history_size (realtime capacity3_session)
   \<and> max_history_size (realtime capacity3_session) < 2 ^ 64
   \<and> is_initialized (realtime capacity3_session) \<and> all_valid five_frames
   \<and> length (fst (run_frames default_gaze_config capacity3_session five_frames)) = 5
   \<and> get_realtime_history (snd (run_frames default_gaze_config capacity3_session five_frames))
       = drop 2 (fst (run_frames default_gaze_config capacity3_session five_frames))
   \<and> get_realtime_history (snd (run_frames default_gaze_config capacity3_session five_frames))
       = [\<lparr>gp_x = 37 / 50, gp_y = 1 / 2, gp_confidence = 4 / 5, gp_timestamp = 3\<rparr>,
          \<lparr>gp_x = 213 / 250, gp_y = 1 / 2, gp_confidence = 4 / 5, gp_timestamp = 4\<rparr>,
          \<lparr>gp_x = 2389 / 2500, gp_y = 1 / 2, gp_confidence = 4 / 5, gp_timestamp = 5\<rparr>]"
proof -
  have h: "0 \<le> max_history_size (realtime capacity3_session)"
      "max_history_size (realtime capacity3_session) < 2 ^ 64"
      "length (recent_gaze_points (realtime capacity3_session))
         \<le> nat (max_history_size (realtime capacity3_session))"
      "is_initialized (realtime capacity3_session)"
    by (simp_all add: capacity3_session_def)
  have v: "all_valid five_frames"
    by (simp add: all_valid_def five_frames_def sample_eye_def)
  have n: "nat (max_history_size (realtime capacity3_session)) = 3"
      "recent_gaze_points (realtime capacity3_session) = []"
    by (simp_all add: capacity3_session_def)
  from rolling_buffer_bounded_fifo[OF h(1,2,3), of default_gaze_config five_frames] h v
  have "get_realtime_history (snd (run_frames default_gaze_config capacity3_session five_frames))
      = keep_last 3 (fst (run_frames default_gaze_config capacity3_session five_frames))"
    by (simp add: n)
  with h v show ?thesis
    by (simp add: five_frames_run keep_last_def)
qed

text \<open>
  Claim C4, as stated, fails: \<open>process_realtime_frame\<close> calls the estimator and appends
  only under \<open>if (eye_result.valid)\<close>. For a detection that is not valid the buffer stays
  as it was, and the returned point is the zero point with timestamp \<open>0\<close>, not the
  estimator's sentinel with the detection's timestamp.
\<close>

theorem ingest_valid_frame_counterexample:
  "get_realtime_history (snd (process_realtime_frame default_gaze_config fresh_pipeline
       (Some ((sample_eye 125 (4 / 5) 3)\<lparr>valid := False\<rparr>))))
     \<noteq> get_realtime_history fresh_pipeline
         @ [fst (calculate_gaze_direction default_gaze_config (gaze fresh_pipeline)
               ((sample_eye 125 (4 / 5) 3)\<lparr>valid := False\<rparr>))]
   \<and> fst (process_realtime_frame default_gaze_config fresh_pipeline
       (Some ((sample_eye 125 (4 / 5) 3)\<lparr>valid := False\<rparr>)))
     \<noteq> fst (calculate_gaze_direction default_gaze_config (gaze fresh_pipeline)
               ((sample_eye 125 (4 / 5) 3)\<lparr>valid := False\<rparr>))"
  by (simp add: process_realtime_frame_def get_realtime_history_def fresh_pipeline_def
      init_realtime_processing_def initial_pipeline_def initial_realtime_state_def
      calculate_gaze_direction_def sample_eye_def zero_gaze_point_def)

text \<open>
  Claim C4, amended. In an initialised session, for every valid detection
  \<open>process_realtime_frame\<close> returns the estimator's point, leaves the estimator's anchor
  as the estimator set it, appends the point to the buffer and then drops the oldest
  entry if the buffer has more entries than the capacity. For a detection that is not
  valid, in a session that is not initialised, or when no frame could be read, it returns
  the zero point and changes nothing.
\<close>

theorem ingest_valid_frame:
  "(is_initialized (realtime s) \<and> valid eye_result \<longrightarrow>
      fst (process_realtime_frame cfg s (Some eye_result))
        = fst (calculate_gaze_direction cfg (gaze s) eye_result)
      \<and> gaze (snd (process_realtime_frame cfg s (Some eye_result)))
        = snd (calculate_gaze_direction cfg (gaze s) eye_result)
      \<and> get_realtime_history (snd (process_realtime_frame cfg s (Some eye_result)))
        = (let pushed = get_realtime_history s
                          @ [fst (calculate_gaze_direction cfg (gaze s) eye_result)]
           in if length pushed > size_t_of_int (max_history_size (realtime s))
              then drop 1 pushed else pushed))
   \<and> (\<not> valid eye_result \<longrightarrow>
        process_realtime_frame cfg s (Some eye_result) = (zero_gaze_point, s))
   \<and> (\<not> is_initialized (realtime s) \<longrightarrow> process_realtime_frame cfg s frame = (zero_gaze_point, s))
   \<and> process_realtime_frame cfg s None = (zero_gaze_point, s)"
proof -
  have e: "drop 1 xs = tl xs" for xs :: "GazePoint list"
    by (simp add: drop_Suc)
  show ?thesis
    unfolding e
    by (cases "calculate_gaze_direction cfg (gaze s) eye_result")
       (auto simp: process_realtime_frame_def get_realtime_history_def Let_def)
qed

theorem ingest_valid_frame_witness:
  "is_initialized (realtime fresh_pipeline) \<and> valid (sample_eye 125 (4 / 5) 3)
   \<and> fst (process_realtime_frame default_gaze_config fresh_pipeline (Some (sample_eye 125 (4 / 5) 3)))
       = \<lparr>gp_x = 3 / 5, gp_y = 1 / 2, gp_confidence = 4 / 5, gp_timestamp = 3\<rparr>
   \<and> get_realtime_history (snd (process_realtime_frame default_gaze_config fresh_pipeline
         (Some (sample_eye 125 (4 / 5) 3))))
       = [\<lparr>gp_x = 3 / 5, gp_y = 1 / 2, gp_confidence = 4 / 5, gp_timestamp = 3\<rparr>]
   \<and> \<not> valid ((sample_eye 125 (4 / 5) 3)\<lparr>valid := False\<rparr>)
   \<and> process_realtime_frame default_gaze_config fresh_pipeline
         (Some ((sample_eye 125 (4 / 5) 3)\<lparr>valid := False\<rparr>)) = (zero_gaze_point, fresh_pipeline)
   \<and> \<not> is_initialized (realtime initial_pipeline)
   \<and> process_realtime_frame default_gaze_config initial_pipeline (Some (sample_eye 125 (4 / 5) 3))
       = (zero_gaze_point, initial_pipeline)"
proof -
  have a: "is_initialized (realtime fresh_pipeline)" "valid (sample_eye 125 (4 / 5) 3)"
      "\<not> valid ((sample_eye 125 (4 / 5) 3)\<lparr>valid := False\<rparr>)"
      "\<not> is_initialized (realtime initial_pipeline)"
    by (simp_all add: fresh_pipeline_eq sample_eye_def initial_pipeline_def
        initial_realtime_state_def)
  have c: "calculate_gaze_direction default_gaze_config (gaze fresh_pipeline) (sample_eye 125 (4 / 5) 3)
      = (\<lparr>gp_x = 3 / 5, gp_y = 1 / 2, gp_confidence = 4 / 5, gp_timestamp = 3\<rparr>,
         \<lparr>prev_gaze = \<lparr>gp_x = 3 / 5, gp_y = 1 / 2, gp_confidence = 4 / 5, gp_timestamp = 3\<rparr>,
          prev_gaze_valid = True\<rparr>)"
    by (simp add: sample_eye_gaze fresh_pipeline_eq initial_gaze_state_def Let_def)
  have g: "get_realtime_history fresh_pipeline = []"
      "size_t_of_int (max_history_size (realtime fresh_pipeline)) = 100"
    by (simp_all add: fresh_pipeline_eq get_realtime_history_def size_t_of_int_def)
  from a
    ingest_valid_frame[of fresh_pipeline "sample_eye 125 (4 / 5) 3" default_gaze_config]
    ingest_valid_frame[of fresh_pipeline "(sample_eye 125 (4 / 5) 3)\<lparr>valid := False\<rparr>"
      default_gaze_config]
    ingest_valid_frame[of initial_pipeline _ default_gaze_config "Some (sample_eye 125 (4 / 5) 3)"]
  show ?thesis
    by (simp add: c g)
qed

text \<open>
  Claim C1, as stated, fails: neither \<open>cleanup_realtime_processing\<close> nor
  \<open>init_realtime_processing\<close> touches \<open>prev_gaze\<close> and \<open>prev_gaze_valid\<close>, which
  live in gaze_detection.cpp and have no reset. After a first session that accepted a
  point at \<open>x = 1\<close>, the restarted pipeline smooths the next point against it
  (\<open>x = 0.72\<close>), where a fresh pipeline returns \<open>x = 0.6\<close>.
\<close>

theorem restart_keeps_anchor_counterexample:
  "fst (run_frames default_gaze_config (restart_pipeline first_session)
          [Some (sample_eye 125 (4 / 5) 2)])
     = [\<lparr>gp_x = 18 / 25, gp_y = 1 / 2, gp_confidence = 4 / 5, gp_timestamp = 2\<rparr>]
   \<and> fst (run_frames default_gaze_config fresh_pipeline [Some (sample_eye 125 (4 / 5) 2)])
     = [\<lparr>gp_x = 3 / 5, gp_y = 1 / 2, gp_confidence = 4 / 5, gp_timestamp = 2\<rparr>]
   \<and> fst (run_frames default_gaze_config (restart_pipeline first_session)
          [Some (sample_eye 125 (4 / 5) 2)])
     \<noteq> fst (run_frames default_gaze_config fresh_pipeline [Some (sample_eye 125 (4 / 5) 2)])"
  by (simp add: restart_pipeline_def first_session_eq fresh_pipeline_eq
      cleanup_realtime_processing_def init_realtime_processing_def
      sample_frame sample_eye_gaze Let_def initial_gaze_state_def size_t_of_int_def)

text \<open>
  Claim C1, amended. \<open>stop()\<close> followed by \<open>start()\<close> yields the state of a fresh
  pipeline except for the smoothing anchor, which is the one the previous session left:
  on every sequence of polls the points returned and the final state (the buffer with
  it) are those of a fresh pipeline started with that anchor, and those of a fresh
  pipeline when the previous session left the anchor in its initial state. (The capacity
  is the constant the source initialises it with; nothing in the source assigns it.)
\<close>

theorem restart_keeps_anchor:
  assumes "max_history_size (realtime s) = max_history_size (realtime initial_pipeline)"
  shows "restart_pipeline s = fresh_pipeline\<lparr>gaze := gaze s\<rparr>
    \<and> run_frames cfg (restart_pipeline s) frames
        = run_frames cfg (fresh_pipeline\<lparr>gaze := gaze s\<rparr>) frames
    \<and> (gaze s = initial_gaze_state \<longrightarrow>
          run_frames cfg (restart_pipeline s) frames = run_frames cfg fresh_pipeline frames)"
proof -
  from assms have "restart_pipeline s = fresh_pipeline\<lparr>gaze := gaze s\<rparr>"
    by (simp add: restart_pipeline_def fresh_pipeline_eq cleanup_realtime_processing_def
        init_realtime_processing_def initial_pipeline_def initial_realtime_state_def)
  moreover have "gaze s = initial_gaze_state \<Longrightarrow> fresh_pipeline\<lparr>gaze := gaze s\<rparr> = fresh_pipeline"
    by (simp add: fresh_pipeline_eq)
  ultimately show ?thesis by simp
qed

theorem restart_keeps_anchor_witness:
  "max_history_size (realtime first_session) = max_history_size (realtime initial_pipeline)
   \<and> restart_pipeline first_session
       = fresh_pipeline\<lparr>gaze := \<lparr>prev_gaze = \<lparr>gp_x = 1, gp_y = 1 / 2, gp_confidence = 4 / 5,
                                                gp_timestamp = 1\<rparr>,
                                   prev_gaze_valid = True\<rparr>\<rparr>
   \<and> max_history_size (realtime quiet_session) = max_history_size (realtime initial_pipeline)
   \<and> gaze quiet_session = initial_gaze_state
   \<and> run_frames default_gaze_config (restart_pipeline quiet_session) five_frames
       = run_frames default_gaze_config fresh_pipeline five_frames"
proof -
  have m: "max_history_size (realtime first_session) = max_history_size (realtime initial_pipeline)"
      "max_history_size (realtime quiet_session) = max_history_size (realtime initial_pipeline)"
      "gaze quiet_session = initial_gaze_state"
    by (simp_all add: first_session_eq quiet_session_eq initial_pipeline_def
        initial_realtime_state_def)
  have g: "gaze first_session
      = \<lparr>prev_gaze = \<lparr>gp_x = 1, gp_y = 1 / 2, gp_confidence = 4 / 5, gp_timestamp = 1\<rparr>,
         prev_gaze_valid = True\<rparr>"
    by (simp add: first_session_eq)
  from restart_keeps_anchor[OF m(1), of default_gaze_config five_frames]
    restart_keeps_anchor[OF m(2), of default_gaze_config five_frames] m g
  show ?thesis by metis
qed

section \<open>Properties of the event classifier\<close>

subsection \<open>Saccades\<close>

lemma saccade_step_spec:
  "saccade_step p gaze_points i acc
     = acc @ (if is_saccade_spec p gaze_points i then [int i] else [])"
  by (auto simp: saccade_step_def is_saccade_spec_def euclid_def Let_def power2_eq_square)

lemma saccade_loop_spec:
  "saccade_loop p gaze_points i acc
     = acc @ map int (filter (is_saccade_spec p gaze_points) [i ..< length gaze_points - 1])"
proof (induction p gaze_points i acc rule: saccade_loop.induct)
  case (1 p gaze_points i saccade_indices)
  show ?case
  proof (cases "i < length gaze_points - 1")
    case True
    then have "[i ..< length gaze_points - 1] = i # [i + 1 ..< length gaze_points - 1]"
      by (simp add: upt_conv_Cons)
    with True "1.IH" show ?thesis
      by (subst saccade_loop.simps) (simp add: saccade_step_spec)
  next
    case False
    then show ?thesis
      by (subst saccade_loop.simps) simp
  qed
qed

text \<open>
  Claim C7. \<open>detect_saccades\<close> returns, in increasing order, exactly the interior
  indices \<open>1 \<le> i < n - 1\<close> that meet the specification's criterion: both elapsed times
  of the triple \<open>(i - 1, i, i + 1)\<close> are positive, and the incoming velocity or the
  outgoing velocity exceeds the velocity threshold or the acceleration exceeds the
  acceleration threshold. A triple with a non-positive elapsed time is skipped, and a
  sequence of fewer than three points yields the empty result.
\<close>

theorem detect_saccades_spec:
  "detect_saccades p gaze_points
     = map int (filter (is_saccade_spec p gaze_points) [1 ..< length gaze_points - 1])
   \<and> (length gaze_points < 3 \<longrightarrow> detect_saccades p gaze_points = [])"
  by (auto simp: detect_saccades_def saccade_loop_spec)

lemma jump_spec:
  "is_saccade_spec default_saccade_params jump_points (Suc 0)"
  "\<not> is_saccade_spec default_saccade_params jump_points 2"
  "\<not> is_saccade_spec default_saccade_params jump_points 3"
  by (simp_all add: is_saccade_spec_def default_saccade_params_def jump_points_def sample_point_def
      euclid_def Let_def)

theorem detect_saccades_spec_witness:
  "length (take 2 jump_points) < 3
   \<and> detect_saccades default_saccade_params (take 2 jump_points) = []
   \<and> detect_saccades default_saccade_params jump_points = [1]"
proof -
  have l: "length (take 2 jump_points) < 3" "length jump_points - 1 = 4"
    by (simp_all add: jump_points_def)
  have u: "[Suc 0 ..< 4] = [Suc 0, 2, 3]"
    by (simp add: upt_rec)
  from l detect_saccades_spec[of default_saccade_params "take 2 jump_points"]
    detect_saccades_spec[of default_saccade_params jump_points]
  show ?thesis
    by (simp add: u jump_spec)
qed

subsection \<open>Fixations\<close>

lemma scan_run_end_lt:
  "e < length gaze_points \<Longrightarrow> fst (scan_run p gaze_points fx fy i (e, sx, sy, vc)) < length gaze_points"
proof (induction p gaze_points fx fy i "(e, sx, sy, vc)" arbitrary: e sx sy vc rule: scan_run.induct)
  case (1 p gaze_points fx fy i end_idx sum_x sum_y visit_count)
  show ?case
  proof (cases "i < length gaze_points \<and>
      sqrt ((gp_x (gaze_points ! i) - fx)\<^sup>2 + (gp_y (gaze_points ! i) - fy)\<^sup>2)
        \<le> position_threshold p / 1000")
    case True
    with "1.hyps" show ?thesis
      by (subst scan_run.simps) (auto simp: Let_def)
  next
    case False
    with "1.prems" show ?thesis
      by (subst scan_run.simps) (auto simp: Let_def)
  qed
qed

lemma scan_from_lt:
  "start_idx < length gaze_points \<Longrightarrow> fst (scan_from p gaze_points start_idx) < length gaze_points"
  by (simp add: scan_from_def scan_run_end_lt)

lemma fixation_runs_cover:
  "start_idx \<le> length gaze_points \<Longrightarrow>
   concat (map run_indices (fixation_runs p gaze_points start_idx)) = [start_idx ..< length gaze_points]"
proof (induction p gaze_points start_idx rule: fixation_runs.induct)
  case (1 p gaze_points start_idx)
  show ?case
  proof (cases "start_idx < length gaze_points")
    case True
    define e where "e = fst (scan_from p gaze_points start_idx)"
    have b: "start_idx \<le> e" "e < length gaze_points"
      using scan_from_ge[of start_idx p gaze_points] scan_from_lt[OF True, of p]
      by (simp_all add: e_def)
    have "e + 1 + (length gaze_points - (e + 1)) = length gaze_points"
      using b by simp
    with b upt_add_eq_append[of start_idx "e + 1" "length gaze_points - (e + 1)"]
    have "[start_idx ..< length gaze_points]
        = [start_idx ..< e + 1] @ [e + 1 ..< length gaze_points]"
      by (simp only: trans_le_add1)
    moreover from "1.IH"[OF True refl] b
    have "concat (map run_indices (fixation_runs p gaze_points (e + 1)))
        = [e + 1 ..< length gaze_points]"
      by (simp add: e_def)
    ultimately show ?thesis
      using True by (subst fixation_runs.simps) (simp add: Let_def run_indices_def e_def)
  next
    case False
    with "1.prems" show ?thesis
      by (subst fixation_runs.simps) simp
  qed
qed

lemma fixation_runs_bounds:
  "list_all (\<lambda>(start_idx, end_idx). start_idx \<le> end_idx \<and> end_idx < length gaze_points)
     (fixation_runs p gaze_points start_idx)"
proof (induction p gaze_points start_idx rule: fixation_runs.induct)
  case (1 p gaze_points start_idx)
  show ?case
  proof (cases "start_idx < length gaze_points")
    case True
    with "1.IH"[OF True refl] scan_from_ge[of start_idx p gaze_points] scan_from_lt[OF True, of p]
    show ?thesis
      by (subst fixation_runs.simps) (simp add: Let_def)
  next
    case False
    then show ?thesis
      by (subst fixation_runs.simps) simp
  qed
qed

lemma fixation_at_simp:
  "fixation_at p gaze_points (start_idx, end_idx)
     = fixation_of_run p gaze_points start_idx (scan_from p gaze_points start_idx)"
  by (simp add: fixation_at_def)

lemma fixation_loop_runs:
  "fixation_loop p gaze_points start_idx fixations
     = fixations @ List.map_filter (fixation_at p gaze_points) (fixation_runs p gaze_points start_idx)"
proof (induction p gaze_points start_idx fixations rule: fixation_loop.induct)
  case (1 p gaze_points start_idx fixations)
  show ?case
  proof (cases "start_idx < length gaze_points")
    case True
    with "1.IH"[OF True refl] show ?thesis
      by (subst fixation_loop.simps, subst fixation_runs.simps)
         (simp add: Let_def fixation_at_simp split: option.splits)
  next
    case False
    then show ?thesis
      by (subst fixation_loop.simps, subst fixation_runs.simps) (simp add: List.map_filter_simps)
  qed
qed

lemma detect_fixations_runs:
  "detect_fixations p gaze_points
     = List.map_filter (fixation_at p gaze_points) (fixation_runs p gaze_points 0)"
proof (cases "gaze_points = []")
  case True
  then show ?thesis
    by (subst fixation_runs.simps) (simp add: detect_fixations_def List.map_filter_simps)
next
  case False
  then show ?thesis
    by (simp add: detect_fixations_def fixation_loop_runs)
qed

text \<open>
  Claim C6. The runs that \<open>detect_fixations\<close> scans are contiguous index ranges that
  cover the input in order: the index ranges of the runs, concatenated from left to
  right, are the indices \<open>0, \<dots>, n - 1\<close> of the input, each exactly once. Every run
  is non-empty and within the input, and the regions returned are the ones these runs
  emit, in their order.
\<close>

theorem fixation_runs_partition:
  "concat (map run_indices (fixation_runs p gaze_points 0)) = [0 ..< length gaze_points]
   \<and> list_all (\<lambda>(start_idx, end_idx). start_idx \<le> end_idx \<and> end_idx < length gaze_points)
       (fixation_runs p gaze_points 0)
   \<and> detect_fixations p gaze_points
       = List.map_filter (fixation_at p gaze_points) (fixation_runs p gaze_points 0)"
  using fixation_runs_cover[of 0 gaze_points p] fixation_runs_bounds[of gaze_points p 0]
    detect_fixations_runs[of p gaze_points]
  by simp

lemma fixation_at_Some_iff:
  assumes "r \<in> set (fixation_runs p gaze_points k)"
  shows "fixation_at p gaze_points r \<noteq> None
     \<longleftrightarrow> fst r < snd r \<and> real_of_int (min_duration_ms p) \<le> run_duration gaze_points r"
    and "fixation_at p gaze_points r = Some f \<Longrightarrow> ar_duration f = run_duration gaze_points r"
    and "snd r = fst (scan_from p gaze_points (fst r))"
proof -
  show e: "snd r = fst (scan_from p gaze_points (fst r))"
    using assms
  proof (induction p gaze_points k rule: fixation_runs.induct)
    case (1 p gaze_points start_idx)
    from "1.prems" have lt: "start_idx < length gaze_points"
      by (subst (asm) fixation_runs.simps) (simp split: if_splits)
    from "1.prems" lt have "r = (start_idx, fst (scan_from p gaze_points start_idx))
        \<or> r \<in> set (fixation_runs p gaze_points (fst (scan_from p gaze_points start_idx) + 1))"
      by (subst (asm) fixation_runs.simps) (simp add: Let_def)
    with "1.IH"[OF lt refl] show ?case by auto
  qed
  obtain s e' where r: "r = (s, e')" by (cases r)
  obtain sx sy vc where sc: "scan_from p gaze_points s = (e', sx, sy, vc)"
    using e r by (cases "scan_from p gaze_points s") auto
  show "fixation_at p gaze_points r \<noteq> None
     \<longleftrightarrow> fst r < snd r \<and> real_of_int (min_duration_ms p) \<le> run_duration gaze_points r"
    by (simp add: r sc fixation_at_def fixation_of_run_def run_duration_def Let_def)
  show "fixation_at p gaze_points r = Some f \<Longrightarrow> ar_duration f = run_duration gaze_points r"
    by (auto simp: r sc fixation_at_def fixation_of_run_def run_duration_def Let_def
        split: if_splits)
qed

lemma fixation_runs_member_bounds:
  assumes "r \<in> set (fixation_runs p gaze_points k)"
  shows "fst r \<le> snd r" and "snd r < length gaze_points"
  using fixation_runs_bounds[of gaze_points p k] assms
  by (auto simp: list_all_iff)

lemma map_filter_member:
  "r \<in> set rs \<Longrightarrow> g r = Some f \<Longrightarrow> f \<in> set (List.map_filter g rs)"
  by (force simp: List.map_filter_def)

text \<open>
  Claim C8. For a positive configured minimum (the source's is 100 ms): a run that
  \<open>detect_fixations\<close> scans and whose duration is exactly the minimum fixation duration
  is emitted as a region of that duration, and a run whose duration is one millisecond
  below the minimum is not emitted.
\<close>

theorem minimum_duration_inclusive:
  assumes "r \<in> set (fixation_runs p gaze_points 0)" and "0 < min_duration_ms p"
  shows "(run_duration gaze_points r = real_of_int (min_duration_ms p) \<longrightarrow>
            (\<exists>f. fixation_at p gaze_points r = Some f
                 \<and> ar_duration f = real_of_int (min_duration_ms p)
                 \<and> f \<in> set (detect_fixations p gaze_points)))
     \<and> (run_duration gaze_points r = real_of_int (min_duration_ms p) - 1 \<longrightarrow>
            fixation_at p gaze_points r = None)"
proof (intro conjI impI)
  assume d: "run_duration gaze_points r = real_of_int (min_duration_ms p)"
  with assms(2) have "fst r \<noteq> snd r"
    by (cases r) (auto simp: run_duration_def)
  with fixation_runs_member_bounds(1)[OF assms(1)] have "fst r < snd r" by simp
  with d fixation_at_Some_iff(1)[OF assms(1)] obtain f where f: "fixation_at p gaze_points r = Some f"
    by auto
  with fixation_at_Some_iff(2)[OF assms(1)] d
  have "ar_duration f = real_of_int (min_duration_ms p)" by simp
  moreover from f assms(1) have "f \<in> set (detect_fixations p gaze_points)"
    by (simp add: detect_fixations_runs map_filter_member)
  ultimately show "\<exists>f. fixation_at p gaze_points r = Some f
      \<and> ar_duration f = real_of_int (min_duration_ms p)
      \<and> f \<in> set (detect_fixations p gaze_points)"
    using f by blast
next
  assume "run_duration gaze_points r = real_of_int (min_duration_ms p) - 1"
  with fixation_at_Some_iff(1)[OF assms(1)] show "fixation_at p gaze_points r = None"
    by auto
qed

lemma boundary_scans:
  "scan_from default_fixation_params boundary_points 0 = (1, 0, 1, 2)"
  "scan_from default_fixation_params boundary_points 2 = (3, 2, 1, 2)"
  by (simp_all add: scan_from_def scan_run.simps boundary_points_def sample_point_def
      default_fixation_params_def Let_def)

lemma boundary_runs:
  "fixation_runs default_fixation_params boundary_points 0 = [(0, 1), (2, 3)]"
proof -
  have l: "length boundary_points = 4" by (simp add: boundary_points_def)
  have r4: "fixation_runs default_fixation_params boundary_points 4 = []"
    by (subst fixation_runs.simps) (simp add: l)
  have r2: "fixation_runs default_fixation_params boundary_points 2 = [(2, 3)]"
    by (subst fixation_runs.simps) (simp add: l boundary_scans r4)
  then have r2': "fixation_runs default_fixation_params boundary_points (Suc (Suc 0)) = [(2, 3)]"
    by (simp add: numeral_2_eq_2)
  show ?thesis
    by (subst fixation_runs.simps) (simp add: l boundary_scans r2')
qed

lemma boundary_regions:
  "fixation_at default_fixation_params boundary_points (0, 1)
     = Some \<lparr>ar_x = 0, ar_y = 1 / 2, ar_duration = 100, ar_intensity = 100, ar_visit_count = 2\<rparr>"
  "fixation_at default_fixation_params boundary_points (2, 3) = None"
proof -
  have "fixation_at default_fixation_params boundary_points (0, 1)
      = fixation_of_run default_fixation_params boundary_points 0 (1, 0, 1, 2)"
    by (simp add: fixation_at_def boundary_scans)
  also have "\<dots> = Some \<lparr>ar_x = 0, ar_y = 1 / 2, ar_duration = 100, ar_intensity = 100,
                         ar_visit_count = 2\<rparr>"
    by (simp add: fixation_of_run_def boundary_points_def sample_point_def default_fixation_params_def
        Let_def upt_rec)
  finally show "fixation_at default_fixation_params boundary_points (0, 1)
     = Some \<lparr>ar_x = 0, ar_y = 1 / 2, ar_duration = 100, ar_intensity = 100, ar_visit_count = 2\<rparr>" .
  have "fixation_at default_fixation_params boundary_points (2, 3)
      = fixation_of_run default_fixation_params boundary_points 2 (3, 2, 1, 2)"
    by (simp add: fixation_at_def boundary_scans)
  also have "\<dots> = None"
    by (simp add: fixation_of_run_def boundary_points_def sample_point_def default_fixation_params_def
        Let_def upt_rec)
  finally show "fixation_at default_fixation_params boundary_points (2, 3) = None" .
qed

theorem minimum_duration_inclusive_witness:
  "(0, 1) \<in> set (fixation_runs default_fixation_params boundary_points 0)
   \<and> (2, 3) \<in> set (fixation_runs default_fixation_params boundary_points 0)
   \<and> 0 < min_duration_ms default_fixation_params
   \<and> run_duration boundary_points (0, 1) = real_of_int (min_duration_ms default_fixation_params)
   \<and> run_duration boundary_points (2, 3) = real_of_int (min_duration_ms default_fixation_params) - 1
   \<and> (\<exists>f. fixation_at default_fixation_params boundary_points (0, 1) = Some f
          \<and> f \<in> set (detect_fixations default_fixation_params boundary_points))
   \<and> fixation_at default_fixation_params boundary_points (2, 3) = None"
proof -
  have m: "(0, 1) \<in> set (fixation_runs default_fixation_params boundary_points 0)"
      "(2, 3) \<in> set (fixation_runs default_fixation_params boundary_points 0)"
    by (simp_all add: boundary_runs)
  have p: "0 < min_duration_ms default_fixation_params"
    by (simp add: default_fixation_params_def)
  have d: "run_duration boundary_points (0, 1) = real_of_int (min_duration_ms default_fixation_params)"
      "run_duration boundary_points (2, 3) = real_of_int (min_duration_ms default_fixation_params) - 1"
    by (simp_all add: run_duration_def boundary_points_def sample_point_def default_fixation_params_def)
  from minimum_duration_inclusive[OF m(1) p] minimum_duration_inclusive[OF m(2) p] m p d
  show ?thesis by blast
qed

lemma boundary_fixations:
  "detect_fixations default_fixation_params boundary_points
     = [\<lparr>ar_x = 0, ar_y = 1 / 2, ar_duration = 100, ar_intensity = 100, ar_visit_count = 2\<rparr>]"
  using boundary_regions by (simp add: detect_fixations_runs boundary_runs)

section \<open>Properties of the density aggregator\<close>

lemma int_of_float_of_int: "int_of_float (real_of_int n) = n"
  by (simp add: int_of_float_def)

lemma saturate_uchar_zero: "saturate_uchar 0 = 0"
  by (simp add: saturate_uchar_def cvRound_def)

lemma generate_heatmap_empty:
  "generate_heatmap [] width height config =
     (let heatmap_width = int_of_float (real_of_int width * resolution_factor config);
          heatmap_height = int_of_float (real_of_int height * resolution_factor config)
      in if heatmap_height < 0 \<or> heatmap_width < 0 then Inl CvException
         else Inr \<lparr>mat_rows = heatmap_height, mat_cols = heatmap_width,
                   mat_data = replicate (nat heatmap_height) (replicate (nat heatmap_width) 0)\<rparr>)"
  by (simp add: generate_heatmap_def Mat_zeros_def convertTo_8U_def saturate_uchar_zero Let_def)

text \<open>
  Claim C3. On an empty point list \<open>generate_heatmap\<close> returns the zero grid as it was
  allocated, \<open>(int)(height * factor)\<close> by \<open>(int)(width * factor)\<close>: the early return
  comes before the "Resize back to original dimensions" step that the other path takes.
  With a requested size of 100 by 100 and a resolution factor of \<open>0.5\<close> the result is
  all zero but 50 by 50, not the requested size.
\<close>

theorem empty_heatmap_keeps_grid_size:
  "generate_heatmap [] 100 100 (heatmap_config\<lparr>resolution_factor := 1 / 2\<rparr>)
     = Inr \<lparr>mat_rows = 50, mat_cols = 50, mat_data = replicate 50 (replicate 50 0)\<rparr>"
  by (simp add: generate_heatmap_empty int_of_float_def heatmap_config_def)

text \<open>
  Claim C10. In the accumulation loop of \<open>generate_heatmap\<close>, a gaze point whose \<open>x\<close>
  is exactly \<open>1\<close> maps to the column index \<open>heatmap_width\<close>, one whose \<open>y\<close> is exactly
  \<open>1\<close> to the row index \<open>heatmap_height\<close>; either fails the bounds check, and the point
  is skipped: the density field is unchanged, whatever the confidence of the point. The
  estimator's clamping produces such points (second theorem: a valid detection of full
  confidence whose gaze point has \<open>x = 1\<close>).
\<close>

theorem edge_point_skipped:
  "(gp_x gaze_point = 1 \<longrightarrow>
      int_of_float (gp_x gaze_point * real_of_int heatmap_width) = heatmap_width)
   \<and> (gp_y gaze_point = 1 \<longrightarrow>
      int_of_float (gp_y gaze_point * real_of_int heatmap_height) = heatmap_height)
   \<and> (gp_x gaze_point = 1 \<or> gp_y gaze_point = 1 \<longrightarrow>
      accumulate_gaze_point config heatmap_width heatmap_height kernel_mat gaze_point heatmap
        = heatmap)"
  by (auto simp: accumulate_gaze_point_def int_of_float_of_int Let_def)

theorem edge_point_skipped_witness:
  "fst (calculate_gaze_direction default_gaze_config initial_gaze_state (sample_eye 1000 1 0))
     = sample_point 1 (1 / 2) 0
   \<and> gp_x (sample_point 1 (1 / 2) 0) = 1
   \<and> gp_confidence (sample_point 1 (1 / 2) 0) = 1
   \<and> int_of_float (gp_x (sample_point 1 (1 / 2) 0) * real_of_int 640) = 640
   \<and> accumulate_gaze_point heatmap_config 640 480 default_kernel (sample_point 1 (1 / 2) 0) zero_grid
       = zero_grid
   \<and> gp_y (sample_point (1 / 2) 1 0) = 1
   \<and> accumulate_gaze_point heatmap_config 640 480 default_kernel (sample_point (1 / 2) 1 0) zero_grid
       = zero_grid"
proof -
  have e: "fst (calculate_gaze_direction default_gaze_config initial_gaze_state (sample_eye 1000 1 0))
      = sample_point 1 (1 / 2) 0"
    by (simp add: sample_eye_gaze initial_gaze_state_def sample_point_def Let_def)
  have x: "gp_x (sample_point 1 (1 / 2) 0) = 1" "gp_confidence (sample_point 1 (1 / 2) 0) = 1"
      "gp_y (sample_point (1 / 2) 1 0) = 1"
    by (simp_all add: sample_point_def)
  from x e
    edge_point_skipped[of "sample_point 1 (1 / 2) 0" 640 480 heatmap_config default_kernel zero_grid]
    edge_point_skipped[of "sample_point (1 / 2) 1 0" 640 480 heatmap_config default_kernel zero_grid]
  show ?thesis by simp
qed

end
